theory Spec2Isabelle
  imports Main "HOL-Library.Word"
begin

section \<open>Data model\<close>

text \<open>
  The client of \<^verbatim>\<open>client.go\<close> is a thin binding of the bundler's JSON-RPC methods.
  Fixed-width byte arrays are machine words: \<^verbatim>\<open>common.Address\<close> is \<^verbatim>\<open>[20]byte\<close> and
  \<^verbatim>\<open>common.Hash\<close> is \<^verbatim>\<open>[32]byte\<close>. A Go pointer is an \<open>option\<close> (\<open>None\<close> is \<^verbatim>\<open>nil\<close>),
  a slice is a list under an \<open>option\<close> (\<open>None\<close> is the nil slice), \<^verbatim>\<open>big.Int\<close> is \<open>int\<close>.
\<close>

type_synonym byte = "8 word"
type_synonym Address = "160 word"
type_synonym Hash = "256 word"
type_synonym Bytes = "byte list"

text \<open>
  \<^verbatim>\<open>hexutil.Big\<close> is declared \<^verbatim>\<open>type Big big.Int\<close>: the same integer under another
  name, whose JSON form is a hex string.
\<close>

datatype hexutil_Big = Big int

text \<open>
  The canonical user operation, \<^verbatim>\<open>userop.UserOperation\<close>: the fields are those of the
  composite literal in \<^verbatim>\<open>ToUserOperation\<close>.
\<close>

record userop_UserOperation =
  Sender :: Address
  Nonce :: "int option"
  InitCode :: Bytes
  CallData :: Bytes
  CallGasLimit :: "int option"
  VerificationGasLimit :: "int option"
  PreVerificationGas :: "int option"
  MaxFeePerGas :: "int option"
  MaxPriorityFeePerGas :: "int option"
  PaymasterAndData :: Bytes
  Signature :: Bytes

text \<open>The per-address state override of \<^verbatim>\<open>client.go\<close>, lines 185 to 191.\<close>

record OverrideAccount =
  Nonce :: "64 word option"
  Code :: "Bytes option"
  Balance :: "hexutil_Big option"
  State :: "(Hash \<rightharpoonup> Hash) option"
  StateDiff :: "(Hash \<rightharpoonup> Hash) option"

text \<open>The wire shape of a user operation, \<^verbatim>\<open>client.go\<close>, lines 152 to 164.\<close>

record UserOperation =
  Sender :: Address
  Nonce :: "hexutil_Big option"
  InitCode :: Bytes
  CallData :: Bytes
  CallGasLimit :: "hexutil_Big option"
  VerificationGasLimit :: "hexutil_Big option"
  PreVerificationGas :: "hexutil_Big option"
  MaxFeePerGas :: "hexutil_Big option"
  MaxPriorityFeePerGas :: "hexutil_Big option"
  PaymasterAndData :: Bytes
  Signature :: Bytes

section \<open>Transport\<close>

text \<open>
  Errors are values. The four kinds are those of the error taxonomy: failure to connect,
  failure of the transport during a call (with cancellation), an error reported by the
  server, and a response that does not decode into the expected shape.
\<close>

datatype error =
    ConnectError string
  | TransportError string
  | Cancelled
  | RpcError int string
  | DecodeError string

datatype json =
    JNull
  | JBool bool
  | JNumber int
  | JString string
  | JArray "json list"
  | JObject "(string \<times> json) list"

datatype "context" = Background | Derived nat

text \<open>The positional parameters of a call: the dynamic types the client passes.\<close>

datatype arg =
    ArgUserOp "userop_UserOperation option"
  | ArgAddress Address
  | ArgHash Hash
  | ArgString string
  | ArgOverrides "Address \<rightharpoonup> OverrideAccount"

type_synonym request = "string \<times> arg list"

text \<open>
  The transport handle \<^verbatim>\<open>*rpc.Client\<close> is represented by its behaviour: from the state
  of everything behind the connection (\<open>'s\<close>), the caller's context, a method name and
  the positional parameters, one round trip yields either an error or the raw JSON result,
  and the next state.
\<close>

type_synonym 's rpc_Client =
  "'s \<Rightarrow> context \<Rightarrow> string \<Rightarrow> arg list \<Rightarrow> (error + json) \<times> 's"

text \<open>\<^verbatim>\<open>type RpcClient struct { c *rpc.Client }\<close>\<close>

record 's RpcClient =
  c :: "'s rpc_Client"

text \<open>
  The program state: the client struct the receiver points to, the state behind the
  transport, and the requests put on the wire so far.
\<close>

record 's world =
  this :: "'s RpcClient"
  remote :: 's
  sent :: "request list"

text \<open>
  A Go type as far as the client needs it: its zero value (what \<^verbatim>\<open>var x T\<close> holds) and
  how JSON is unmarshalled into a variable of the type. The types of the bundler package
  (\<^verbatim>\<open>gas.GasEstimates\<close>, \<^verbatim>\<open>filter.UserOperationReceipt\<close>, \<^verbatim>\<open>filter.HashLookupResult\<close>) are
  opaque to the client and enter as such descriptors.
\<close>

record 'a go_type =
  zeroValue :: 'a
  UnmarshalJSON :: "json \<Rightarrow> 'a \<Rightarrow> error option \<times> 'a"

text \<open>
  Modelled from the spec: \<^verbatim>\<open>rpc.Client.CallContext\<close> belongs to the transport library, not
  to the repository. Each operation performs exactly one round trip; a transport failure,
  a cancellation or a server-reported error comes back as the error, with the result
  variable untouched; otherwise the JSON result is unmarshalled into the result variable,
  and a response of the wrong shape is a decoding error.
\<close>

definition CallContext ::
  "'s rpc_Client \<Rightarrow> (json \<Rightarrow> 'r \<Rightarrow> error option \<times> 'r) \<Rightarrow> 'r \<Rightarrow> context \<Rightarrow> string \<Rightarrow> arg list
     \<Rightarrow> 's world \<Rightarrow> (error option \<times> 'r) \<times> 's world" where
  "CallContext h unmarshal result ctx method args w =
     (case h (remote w) ctx method args of
        (reply, s') \<Rightarrow>
          (let w' = w\<lparr>remote := s', sent := sent w @ [(method, args)]\<rparr>
           in case reply of
                Inl e \<Rightarrow> ((Some e, result), w')
              | Inr raw \<Rightarrow> (unmarshal raw result, w')))"

text \<open>A call whose result pointer is \<^verbatim>\<open>nil\<close> discards the JSON result.\<close>

definition nil_result :: "json \<Rightarrow> unit \<Rightarrow> error option \<times> unit" where
  "nil_result raw u = (None, u)"

section \<open>Wire encodings\<close>

text \<open>
  Modelled from the spec: the hexadecimal codecs are those of the \<^verbatim>\<open>hexutil\<close> and
  \<^verbatim>\<open>common\<close> packages, which are not part of the repository. The field encodings are:
  addresses, 20-byte values, hex-encoded with \<^verbatim>\<open>0x\<close> prefix; hashes, 32-byte values,
  hex-encoded with \<^verbatim>\<open>0x\<close> prefix; big integers, hex-encoded strings, minimal form,
  \<^verbatim>\<open>0x\<close> prefix; byte strings, hex-encoded, \<^verbatim>\<open>0x\<close> prefix. Encoding writes lower-case
  digits; decoding reads both cases.
\<close>

definition hex_digit :: "nat \<Rightarrow> char" where
  "hex_digit n = (if n < 10 then char_of (48 + n) else char_of (87 + n))"

definition hex_val :: "char \<Rightarrow> nat option" where
  "hex_val ch =
     (let k = (of_char ch :: nat)
      in if 48 \<le> k \<and> k \<le> 57 then Some (k - 48)
         else if 97 \<le> k \<and> k \<le> 102 then Some (k - 87)
         else if 65 \<le> k \<and> k \<le> 70 then Some (k - 55)
         else None)"

text \<open>Reading a digit string, most significant digit first; \<open>None\<close> at a non-digit.\<close>

fun nat_of_hex :: "nat \<Rightarrow> string \<Rightarrow> nat option" where
  "nat_of_hex acc [] = Some acc"
| "nat_of_hex acc (ch # cs) =
     (case hex_val ch of None \<Rightarrow> None | Some d \<Rightarrow> nat_of_hex (16 * acc + d) cs)"

text \<open>The minimal form: no leading zero digit, and the single digit \<^verbatim>\<open>0\<close> for zero.\<close>

function hex_of_nat :: "nat \<Rightarrow> string" where
  "hex_of_nat n =
     (if n < 16 then [hex_digit n] else hex_of_nat (n div 16) @ [hex_digit (n mod 16)])"
  by pat_completeness auto
termination
  by (relation "measure (\<lambda>n. n)") auto

declare hex_of_nat.simps [simp del]

text \<open>The fixed-width form: exactly \<open>k\<close> digits.\<close>

fun hex_fixed :: "nat \<Rightarrow> nat \<Rightarrow> string" where
  "hex_fixed 0 n = []"
| "hex_fixed (Suc k) n = hex_fixed k (n div 16) @ [hex_digit (n mod 16)]"

definition strip_0x :: "string \<Rightarrow> string option" where
  "strip_0x s = (if take 2 s = ''0x'' then Some (drop 2 s) else None)"

text \<open>Big integers. A negative integer is written with its sign before the prefix.\<close>

definition EncodeBig :: "int \<Rightarrow> string" where
  "EncodeBig n =
     (if n < 0 then ''-0x'' @ hex_of_nat (nat (- n)) else ''0x'' @ hex_of_nat (nat n))"

definition DecodeBig :: "string \<Rightarrow> error + int" where
  "DecodeBig s =
     (case strip_0x s of
        None \<Rightarrow> Inl (DecodeError ''hex string without 0x prefix'')
      | Some ds \<Rightarrow>
          if ds = [] then Inl (DecodeError ''empty hex string'')
          else if 1 < length ds \<and> hd ds = CHR ''0''
          then Inl (DecodeError ''hex number with leading zero digits'')
          else (case nat_of_hex 0 ds of
                  None \<Rightarrow> Inl (DecodeError ''invalid hex string'')
                | Some n \<Rightarrow> Inr (int n)))"

text \<open>Fixed-length byte sequences (addresses and hashes): four bits to the digit.\<close>

definition encode_word :: "'a::len word \<Rightarrow> string" where
  "encode_word x = ''0x'' @ hex_fixed (LENGTH('a) div 4) (unat x)"

definition decode_word :: "string \<Rightarrow> error + 'a::len word" where
  "decode_word s =
     (case strip_0x s of
        None \<Rightarrow> Inl (DecodeError ''hex string without 0x prefix'')
      | Some ds \<Rightarrow>
          if length ds \<noteq> LENGTH('a) div 4
          then Inl (DecodeError ''hex string of the wrong length'')
          else (case nat_of_hex 0 ds of
                  None \<Rightarrow> Inl (DecodeError ''invalid hex string'')
                | Some n \<Rightarrow> Inr (word_of_nat n)))"

text \<open>Byte strings: two digits to the byte.\<close>

definition hex_byte :: "byte \<Rightarrow> string" where
  "hex_byte b = [hex_digit (unat b div 16), hex_digit (unat b mod 16)]"

fun bytes_of_hex :: "string \<Rightarrow> Bytes option" where
  "bytes_of_hex [] = Some []"
| "bytes_of_hex [ch] = None"
| "bytes_of_hex (c1 # c2 # cs) =
     (case hex_val c1 of
        None \<Rightarrow> None
      | Some h \<Rightarrow>
          (case hex_val c2 of
             None \<Rightarrow> None
           | Some l \<Rightarrow>
               (case bytes_of_hex cs of
                  None \<Rightarrow> None
                | Some bs \<Rightarrow> Some (word_of_nat (16 * h + l) # bs))))"

definition encode_Bytes :: "Bytes \<Rightarrow> string" where
  "encode_Bytes bs = ''0x'' @ concat (map hex_byte bs)"

definition decode_Bytes :: "string \<Rightarrow> error + Bytes" where
  "decode_Bytes s =
     (case strip_0x s of
        None \<Rightarrow> Inl (DecodeError ''hex string without 0x prefix'')
      | Some ds \<Rightarrow>
          (case bytes_of_hex ds of
             None \<Rightarrow> Inl (DecodeError ''invalid hex string'')
           | Some bs \<Rightarrow> Inr bs))"

section \<open>Unmarshalling the typed results\<close>

text \<open>
  Modelled from the spec: unmarshalling is done by the JSON library and by the hex types'
  own decoders, none of them part of the repository. A result that does not match the
  expected shape is a decoding failure; a JSON \<^verbatim>\<open>null\<close> sets a pointer or a slice to
  \<^verbatim>\<open>nil\<close> and leaves a string or a struct as it is (the absent result is a successful
  call); the hex types accept nothing but a string in their encoding.
\<close>

definition unmarshal_string :: "json \<Rightarrow> string \<Rightarrow> error option \<times> string" where
  "unmarshal_string raw v =
     (case raw of
        JString s \<Rightarrow> (None, s)
      | JNull \<Rightarrow> (None, v)
      | _ \<Rightarrow> (Some (DecodeError ''cannot unmarshal into a string''), v))"

definition unmarshal_Big :: "json \<Rightarrow> hexutil_Big \<Rightarrow> error option \<times> hexutil_Big" where
  "unmarshal_Big raw v =
     (case raw of
        JString s \<Rightarrow> (case DecodeBig s of Inl e \<Rightarrow> (Some e, v) | Inr n \<Rightarrow> (None, Big n))
      | _ \<Rightarrow> (Some (DecodeError ''cannot unmarshal non-string into a big integer''), v))"

definition unmarshal_word :: "json \<Rightarrow> 'a::len word \<Rightarrow> error option \<times> 'a word" where
  "unmarshal_word raw v =
     (case raw of
        JString s \<Rightarrow> (case decode_word s of Inl e \<Rightarrow> (Some e, v) | Inr x \<Rightarrow> (None, x))
      | _ \<Rightarrow> (Some (DecodeError ''cannot unmarshal non-string into fixed bytes''), v))"

definition unmarshal_Bytes :: "json \<Rightarrow> Bytes \<Rightarrow> error option \<times> Bytes" where
  "unmarshal_Bytes raw v =
     (case raw of
        JString s \<Rightarrow> (case decode_Bytes s of Inl e \<Rightarrow> (Some e, v) | Inr bs \<Rightarrow> (None, bs))
      | _ \<Rightarrow> (Some (DecodeError ''cannot unmarshal non-string into bytes''), v))"

text \<open>A pointer: \<^verbatim>\<open>null\<close> is \<^verbatim>\<open>nil\<close>; otherwise the value pointed to is decoded.\<close>

definition unmarshal_ptr ::
  "(json \<Rightarrow> 'a \<Rightarrow> error option \<times> 'a) \<Rightarrow> 'a \<Rightarrow> json \<Rightarrow> 'a option \<Rightarrow> error option \<times> 'a option" where
  "unmarshal_ptr unmarshal zero raw p =
     (case raw of
        JNull \<Rightarrow> (None, None)
      | _ \<Rightarrow>
          (case unmarshal raw (case p of None \<Rightarrow> zero | Some v \<Rightarrow> v) of
             (e, v) \<Rightarrow> (e, Some v)))"

text \<open>A slice: \<^verbatim>\<open>null\<close> is the nil slice; an array is decoded element by element.\<close>

fun unmarshal_elems ::
  "(json \<Rightarrow> 'a \<Rightarrow> error option \<times> 'a) \<Rightarrow> 'a \<Rightarrow> json list \<Rightarrow> error option \<times> 'a list" where
  "unmarshal_elems unmarshal zero [] = (None, [])"
| "unmarshal_elems unmarshal zero (raw # raws) =
     (case unmarshal raw zero of
        (Some e, v) \<Rightarrow> (Some e, [v])
      | (None, v) \<Rightarrow>
          (case unmarshal_elems unmarshal zero raws of (e, vs) \<Rightarrow> (e, v # vs)))"

definition unmarshal_slice ::
  "(json \<Rightarrow> 'a \<Rightarrow> error option \<times> 'a) \<Rightarrow> 'a \<Rightarrow> json \<Rightarrow> 'a list option
     \<Rightarrow> error option \<times> 'a list option" where
  "unmarshal_slice unmarshal zero raw v =
     (case raw of
        JNull \<Rightarrow> (None, None)
      | JArray raws \<Rightarrow>
          (case unmarshal_elems unmarshal zero raws of (e, vs) \<Rightarrow> (e, Some vs))
      | _ \<Rightarrow> (Some (DecodeError ''cannot unmarshal into a slice''), v))"

text \<open>
  The wire struct: each key of the object that is a field's JSON tag (\<^verbatim>\<open>client.go\<close>,
  lines 153 to 163) is decoded into that field, in the order of the object; other keys
  are ignored; the first failure ends the decoding.
\<close>

definition set_field :: "string \<Rightarrow> json \<Rightarrow> UserOperation \<Rightarrow> error option \<times> UserOperation" where
  "set_field key raw uo =
     (if key = ''sender'' then
        (case unmarshal_word raw (UserOperation.Sender uo) of
           (e, v) \<Rightarrow> (e, uo\<lparr>UserOperation.Sender := v\<rparr>))
      else if key = ''nonce'' then
        (case unmarshal_ptr unmarshal_Big (Big 0) raw (UserOperation.Nonce uo) of
           (e, v) \<Rightarrow> (e, uo\<lparr>UserOperation.Nonce := v\<rparr>))
      else if key = ''initCode'' then
        (case unmarshal_Bytes raw (UserOperation.InitCode uo) of
           (e, v) \<Rightarrow> (e, uo\<lparr>UserOperation.InitCode := v\<rparr>))
      else if key = ''callData'' then
        (case unmarshal_Bytes raw (UserOperation.CallData uo) of
           (e, v) \<Rightarrow> (e, uo\<lparr>UserOperation.CallData := v\<rparr>))
      else if key = ''callGasLimit'' then
        (case unmarshal_ptr unmarshal_Big (Big 0) raw (UserOperation.CallGasLimit uo) of
           (e, v) \<Rightarrow> (e, uo\<lparr>UserOperation.CallGasLimit := v\<rparr>))
      else if key = ''verificationGasLimit'' then
        (case unmarshal_ptr unmarshal_Big (Big 0) raw (UserOperation.VerificationGasLimit uo) of
           (e, v) \<Rightarrow> (e, uo\<lparr>UserOperation.VerificationGasLimit := v\<rparr>))
      else if key = ''preVerificationGas'' then
        (case unmarshal_ptr unmarshal_Big (Big 0) raw (UserOperation.PreVerificationGas uo) of
           (e, v) \<Rightarrow> (e, uo\<lparr>UserOperation.PreVerificationGas := v\<rparr>))
      else if key = ''maxFeePerGas'' then
        (case unmarshal_ptr unmarshal_Big (Big 0) raw (UserOperation.MaxFeePerGas uo) of
           (e, v) \<Rightarrow> (e, uo\<lparr>UserOperation.MaxFeePerGas := v\<rparr>))
      else if key = ''maxPriorityFeePerGas'' then
        (case unmarshal_ptr unmarshal_Big (Big 0) raw (UserOperation.MaxPriorityFeePerGas uo) of
           (e, v) \<Rightarrow> (e, uo\<lparr>UserOperation.MaxPriorityFeePerGas := v\<rparr>))
      else if key = ''paymasterAndData'' then
        (case unmarshal_Bytes raw (UserOperation.PaymasterAndData uo) of
           (e, v) \<Rightarrow> (e, uo\<lparr>UserOperation.PaymasterAndData := v\<rparr>))
      else if key = ''signature'' then
        (case unmarshal_Bytes raw (UserOperation.Signature uo) of
           (e, v) \<Rightarrow> (e, uo\<lparr>UserOperation.Signature := v\<rparr>))
      else (None, uo))"

fun unmarshal_fields ::
  "(string \<times> json) list \<Rightarrow> UserOperation \<Rightarrow> error option \<times> UserOperation" where
  "unmarshal_fields [] uo = (None, uo)"
| "unmarshal_fields ((key, raw) # kvs) uo =
     (case set_field key raw uo of
        (Some e, uo') \<Rightarrow> (Some e, uo')
      | (None, uo') \<Rightarrow> unmarshal_fields kvs uo')"

definition unmarshal_UserOperation ::
  "json \<Rightarrow> UserOperation \<Rightarrow> error option \<times> UserOperation" where
  "unmarshal_UserOperation raw uo =
     (case raw of
        JObject kvs \<Rightarrow> unmarshal_fields kvs uo
      | JNull \<Rightarrow> (None, uo)
      | _ \<Rightarrow> (Some (DecodeError ''cannot unmarshal into a user operation''), uo))"

text \<open>The zero value of the wire struct.\<close>

definition zero_UserOperation :: UserOperation where
  "zero_UserOperation =
     \<lparr>UserOperation.Sender = 0, UserOperation.Nonce = None, UserOperation.InitCode = [],
      UserOperation.CallData = [], UserOperation.CallGasLimit = None,
      UserOperation.VerificationGasLimit = None, UserOperation.PreVerificationGas = None,
      UserOperation.MaxFeePerGas = None, UserOperation.MaxPriorityFeePerGas = None,
      UserOperation.PaymasterAndData = [], UserOperation.Signature = []\<rparr>"

text \<open>
  Writing a user operation in the wire format: the same JSON tags, every field in its
  encoding, a nil integer as \<^verbatim>\<open>null\<close>.
\<close>

definition marshal_Big_ptr :: "int option \<Rightarrow> json" where
  "marshal_Big_ptr p = (case p of None \<Rightarrow> JNull | Some n \<Rightarrow> JString (EncodeBig n))"

definition marshal_UserOperation :: "userop_UserOperation \<Rightarrow> json" where
  "marshal_UserOperation op =
     JObject
       [(''sender'', JString (encode_word (userop_UserOperation.Sender op))),
        (''nonce'', marshal_Big_ptr (userop_UserOperation.Nonce op)),
        (''initCode'', JString (encode_Bytes (userop_UserOperation.InitCode op))),
        (''callData'', JString (encode_Bytes (userop_UserOperation.CallData op))),
        (''callGasLimit'', marshal_Big_ptr (userop_UserOperation.CallGasLimit op)),
        (''verificationGasLimit'', marshal_Big_ptr (userop_UserOperation.VerificationGasLimit op)),
        (''preVerificationGas'', marshal_Big_ptr (userop_UserOperation.PreVerificationGas op)),
        (''maxFeePerGas'', marshal_Big_ptr (userop_UserOperation.MaxFeePerGas op)),
        (''maxPriorityFeePerGas'', marshal_Big_ptr (userop_UserOperation.MaxPriorityFeePerGas op)),
        (''paymasterAndData'', JString (encode_Bytes (userop_UserOperation.PaymasterAndData op))),
        (''signature'', JString (encode_Bytes (userop_UserOperation.Signature op)))]"

section \<open>The client\<close>

text \<open>
  Every method reads the handle from the receiver's struct, makes its call and returns its
  results with the state it leaves. A result pair is (value, error), \<open>None\<close> being \<^verbatim>\<open>nil\<close>.
\<close>

definition NewClient :: "'s rpc_Client \<Rightarrow> 's RpcClient" where
  "NewClient h = \<lparr>RpcClient.c = h\<rparr>"

text \<open>\<^verbatim>\<open>rpc.DialContext\<close> is the transport library's; it enters as the parameter \<open>dial\<close>.\<close>

definition DialContext ::
  "(context \<Rightarrow> string \<Rightarrow> error + 's rpc_Client) \<Rightarrow> context \<Rightarrow> string
     \<Rightarrow> 's RpcClient option \<times> error option" where
  "DialContext dial ctx rawurl =
     (case dial ctx rawurl of
        Inl err \<Rightarrow> (None, Some err)
      | Inr h \<Rightarrow> (Some (NewClient h), None))"

definition Dial ::
  "(context \<Rightarrow> string \<Rightarrow> error + 's rpc_Client) \<Rightarrow> string \<Rightarrow> 's RpcClient option \<times> error option" where
  "Dial dial rawurl = DialContext dial Background rawurl"

definition SendUserOperation ::
  "context \<Rightarrow> userop_UserOperation option \<Rightarrow> Address \<Rightarrow> 's world
     \<Rightarrow> (Hash \<times> error option) \<times> 's world" where
  "SendUserOperation ctx op entryPoint w =
     (let result = 0;
          ((err, result), w) =
            CallContext (RpcClient.c (this w)) unmarshal_word result ctx
              ''eth_sendUserOperation'' [ArgUserOp op, ArgAddress entryPoint] w
      in ((result, err), w))"

definition EstimateUserOperationGas ::
  "'g go_type \<Rightarrow> context \<Rightarrow> userop_UserOperation option \<Rightarrow> Address \<Rightarrow> 's world
     \<Rightarrow> ('g option \<times> error option) \<times> 's world" where
  "EstimateUserOperationGas GasEstimates ctx op entryPoint w =
     (let estimate = zeroValue GasEstimates;
          ((err, estimate), w) =
            CallContext (RpcClient.c (this w)) (UnmarshalJSON GasEstimates) estimate ctx
              ''eth_estimateUserOperationGas'' [ArgUserOp op, ArgAddress entryPoint] w
      in if err \<noteq> None then ((None, err), w)
         else ((Some estimate, None), w))"

definition EstimateUserOperationGasWithOverrides ::
  "'g go_type \<Rightarrow> context \<Rightarrow> userop_UserOperation option \<Rightarrow> Address
     \<Rightarrow> (Address \<rightharpoonup> OverrideAccount) \<Rightarrow> 's world
     \<Rightarrow> ('g option \<times> error option) \<times> 's world" where
  "EstimateUserOperationGasWithOverrides GasEstimates ctx op entryPoint stateOverrides w =
     (let estimate = zeroValue GasEstimates;
          ((err, estimate), w) =
            CallContext (RpcClient.c (this w)) (UnmarshalJSON GasEstimates) estimate ctx
              ''eth_estimateUserOperationGas''
              [ArgUserOp op, ArgAddress entryPoint, ArgOverrides stateOverrides] w
      in if err \<noteq> None then ((None, err), w)
         else ((Some estimate, None), w))"

definition GetUserOperationReceipt ::
  "'r go_type \<Rightarrow> context \<Rightarrow> Hash \<Rightarrow> 's world \<Rightarrow> ('r option \<times> error option) \<times> 's world" where
  "GetUserOperationReceipt UserOperationReceipt ctx userOpHash w =
     (let receipt = zeroValue UserOperationReceipt;
          ((err, receipt), w) =
            CallContext (RpcClient.c (this w)) (UnmarshalJSON UserOperationReceipt) receipt ctx
              ''eth_getUserOperationReceipt'' [ArgHash userOpHash] w
      in if err \<noteq> None then ((None, err), w)
         else ((Some receipt, None), w))"

definition GetUserOperationByHash ::
  "'l go_type \<Rightarrow> context \<Rightarrow> Hash \<Rightarrow> 's world \<Rightarrow> ('l option \<times> error option) \<times> 's world" where
  "GetUserOperationByHash HashLookupResult ctx userOpHash w =
     (let op = zeroValue HashLookupResult;
          ((err, op), w) =
            CallContext (RpcClient.c (this w)) (UnmarshalJSON HashLookupResult) op ctx
              ''eth_getUserOperationByHash'' [ArgHash userOpHash] w
      in if err \<noteq> None then ((None, err), w)
         else ((Some op, None), w))"

definition SupportedEntryPoints ::
  "context \<Rightarrow> 's world \<Rightarrow> (Address list option \<times> error option) \<times> 's world" where
  "SupportedEntryPoints ctx w =
     (let entryPoints = None;
          ((err, entryPoints), w) =
            CallContext (RpcClient.c (this w)) (unmarshal_slice unmarshal_word 0) entryPoints ctx
              ''eth_supportedEntryPoints'' [] w
      in if err \<noteq> None then ((None, err), w)
         else ((entryPoints, None), w))"

text \<open>The conversion \<^verbatim>\<open>(*big.Int)(&result)\<close>: the same integer under its own name.\<close>

definition big_Int :: "hexutil_Big \<Rightarrow> int" where
  "big_Int b = (case b of Big n \<Rightarrow> n)"

definition ChainId :: "context \<Rightarrow> 's world \<Rightarrow> (int option \<times> error option) \<times> 's world" where
  "ChainId ctx w =
     (let result = Big 0;
          ((err, result), w) =
            CallContext (RpcClient.c (this w)) unmarshal_Big result ctx ''eth_chainId'' [] w
      in if err \<noteq> None then ((None, err), w)
         else ((Some (big_Int result), None), w))"

definition BundlerClearState :: "context \<Rightarrow> 's world \<Rightarrow> error option \<times> 's world" where
  "BundlerClearState ctx w =
     (let ((err, u), w) =
            CallContext (RpcClient.c (this w)) nil_result () ctx ''debug_bundler_clearState'' [] w
      in (err, w))"

text \<open>
  Modelled from the spec: \<^verbatim>\<open>hexutil.Big.ToInt\<close> is the hex library's. It is the conversion
  of a wire numeric to the big integer it carries (hex-string numerics to big integers),
  a conversion of the pointer, so that \<^verbatim>\<open>nil\<close> stays \<^verbatim>\<open>nil\<close>.
\<close>

definition ToInt :: "hexutil_Big option \<Rightarrow> int option" where
  "ToInt b = (case b of None \<Rightarrow> None | Some v \<Rightarrow> Some (big_Int v))"

definition ToUserOperation :: "UserOperation option \<Rightarrow> userop_UserOperation option" where
  "ToUserOperation uo =
     (case uo of
        None \<Rightarrow> None
      | Some uo \<Rightarrow>
          Some \<lparr>userop_UserOperation.Sender = UserOperation.Sender uo,
                userop_UserOperation.Nonce = ToInt (UserOperation.Nonce uo),
                userop_UserOperation.InitCode = UserOperation.InitCode uo,
                userop_UserOperation.CallData = UserOperation.CallData uo,
                userop_UserOperation.CallGasLimit = ToInt (UserOperation.CallGasLimit uo),
                userop_UserOperation.VerificationGasLimit =
                  ToInt (UserOperation.VerificationGasLimit uo),
                userop_UserOperation.PreVerificationGas =
                  ToInt (UserOperation.PreVerificationGas uo),
                userop_UserOperation.MaxFeePerGas = ToInt (UserOperation.MaxFeePerGas uo),
                userop_UserOperation.MaxPriorityFeePerGas =
                  ToInt (UserOperation.MaxPriorityFeePerGas uo),
                userop_UserOperation.PaymasterAndData = UserOperation.PaymasterAndData uo,
                userop_UserOperation.Signature = UserOperation.Signature uo\<rparr>)"

text \<open>The elements of a slice; the nil slice has none.\<close>

definition elems :: "'a list option \<Rightarrow> 'a list" where
  "elems s = (case s of None \<Rightarrow> [] | Some xs \<Rightarrow> xs)"

text \<open>
  The loop \<^verbatim>\<open>for i, op := range ops { uops[i] = op.ToUserOperation() }\<close>, from index \<open>i\<close>
  over the remaining elements. An assignment beyond the length of \<open>uops\<close> would panic;
  \<open>None\<close> is that panic.
\<close>

fun range_ops ::
  "nat \<Rightarrow> UserOperation option list \<Rightarrow> userop_UserOperation option list
     \<Rightarrow> userop_UserOperation option list option" where
  "range_ops i [] uops = Some uops"
| "range_ops i (op # ops) uops =
     (if i < length uops then range_ops (Suc i) ops (uops[i := ToUserOperation op])
      else None)"

definition BundlerDumpMempool ::
  "context \<Rightarrow> Address \<Rightarrow> 's world
     \<Rightarrow> ((userop_UserOperation option list option \<times> error option) \<times> 's world) option" where
  "BundlerDumpMempool ctx entryPoint w =
     (let ops = None;
          ((err, ops), w) =
            CallContext (RpcClient.c (this w))
              (unmarshal_slice (unmarshal_ptr unmarshal_UserOperation zero_UserOperation) None)
              ops ctx ''debug_bundler_dumpMempool'' [ArgAddress entryPoint] w
      in if err \<noteq> None then Some ((None, err), w)
         else let uops = replicate (length (elems ops)) None
              in (case range_ops 0 (elems ops) uops of
                    None \<Rightarrow> None
                  | Some uops \<Rightarrow> Some ((Some uops, None), w)))"

text \<open>\<^verbatim>\<open>common.HexToHash\<close> is the library's; it enters as the parameter \<open>HexToHash\<close>.\<close>

definition BundlerSendBundleNow ::
  "(string \<Rightarrow> Hash) \<Rightarrow> context \<Rightarrow> 's world \<Rightarrow> (Hash option \<times> error option) \<times> 's world" where
  "BundlerSendBundleNow HexToHash ctx w =
     (let result = [];
          ((err, result), w) =
            CallContext (RpcClient.c (this w)) unmarshal_string result ctx
              ''debug_bundler_sendBundleNow'' [] w
      in if err \<noteq> None then ((None, err), w)
         else if length result = 0 then ((None, None), w)
         else let hash = HexToHash result in ((Some hash, None), w))"

definition BundlerSetBundlingMode ::
  "context \<Rightarrow> string \<Rightarrow> 's world \<Rightarrow> error option \<times> 's world" where
  "BundlerSetBundlingMode ctx mode w =
     (let ((err, u), w) =
            CallContext (RpcClient.c (this w)) nil_result () ctx
              ''debug_bundler_setBundlingMode'' [ArgString mode] w
      in (err, w))"

section \<open>Validity and sample inputs\<close>

text \<open>
  A user operation is valid for the wire format when every numeric field that is present
  is a natural number: the format has the \<^verbatim>\<open>0x\<close> prefix first and no sign.
\<close>

definition natural :: "int option \<Rightarrow> bool" where
  "natural p = (case p of None \<Rightarrow> True | Some n \<Rightarrow> 0 \<le> n)"

definition valid_UserOperation :: "userop_UserOperation \<Rightarrow> bool" where
  "valid_UserOperation op \<longleftrightarrow>
     natural (userop_UserOperation.Nonce op) \<and>
     natural (userop_UserOperation.CallGasLimit op) \<and>
     natural (userop_UserOperation.VerificationGasLimit op) \<and>
     natural (userop_UserOperation.PreVerificationGas op) \<and>
     natural (userop_UserOperation.MaxFeePerGas op) \<and>
     natural (userop_UserOperation.MaxPriorityFeePerGas op)"

text \<open>
  Concrete inputs. A transport that answers every call with the same reply; the world of a
  client freshly constructed on a handle; an opaque struct type, kept as the fields the
  response set, which a \<^verbatim>\<open>null\<close> leaves as it is; a strict reading of a hash; a transport
  that fails once and answers afterwards; and the user operation of the example scenario
  (sender \<^verbatim>\<open>0xAAAA...\<close>, every numeric field zero, empty init code, call data and paymaster
  data, and a signature).
\<close>

definition answering :: "error + json \<Rightarrow> 's rpc_Client" where
  "answering reply s ctx method args = (reply, s)"

definition connected :: "'s rpc_Client \<Rightarrow> 's \<Rightarrow> 's world" where
  "connected h s = \<lparr>this = NewClient h, remote = s, sent = []\<rparr>"

definition opaque_struct :: "(string \<times> json) list go_type" where
  "opaque_struct =
     \<lparr>zeroValue = [],
      UnmarshalJSON = (\<lambda>raw v.
        case raw of
          JObject kvs \<Rightarrow> (None, kvs)
        | JNull \<Rightarrow> (None, v)
        | _ \<Rightarrow> (Some (DecodeError ''cannot unmarshal into a struct''), v))\<rparr>"

definition strict_hash :: "string \<Rightarrow> Hash" where
  "strict_hash s = (case decode_word s of Inl e \<Rightarrow> 0 | Inr h \<Rightarrow> h)"

definition failing_once :: "error \<Rightarrow> json \<Rightarrow> nat rpc_Client" where
  "failing_once e raw n ctx method args = (if n = 0 then (Inl e, Suc n) else (Inr raw, Suc n))"

definition example_op :: userop_UserOperation where
  "example_op =
     \<lparr>userop_UserOperation.Sender = 0xAAAAAAAAAAAAAAAAAAAAAAAAAAAAAAAAAAAAAAAA,
      userop_UserOperation.Nonce = Some 0,
      userop_UserOperation.InitCode = [],
      userop_UserOperation.CallData = [],
      userop_UserOperation.CallGasLimit = Some 0,
      userop_UserOperation.VerificationGasLimit = Some 0,
      userop_UserOperation.PreVerificationGas = Some 0,
      userop_UserOperation.MaxFeePerGas = Some 0,
      userop_UserOperation.MaxPriorityFeePerGas = Some 0,
      userop_UserOperation.PaymasterAndData = [],
      userop_UserOperation.Signature = [0xde, 0xad]\<rparr>"

text \<open>
  An answer to \<^verbatim>\<open>debug_bundler_dumpMempool\<close>: a \<^verbatim>\<open>null\<close> element and an operation
  with nonce 5, a \<^verbatim>\<open>null\<close> gas limit and no other field.
\<close>

definition mempool_answer :: json where
  "mempool_answer =
     JArray [JNull, JObject [(''nonce'', JString ''0x5''), (''callGasLimit'', JNull)]]"

section \<open>The codecs invert\<close>

lemma hex_val_digit: "n < 16 \<Longrightarrow> hex_val (hex_digit n) = Some n"
  by (simp add: hex_val_def hex_digit_def Let_def)

lemma hex_digit_0: "hex_digit 0 = CHR ''0''"
  by code_simp

lemma nat_of_hex_snoc:
  "nat_of_hex acc (cs @ [ch]) =
     (case nat_of_hex acc cs of
        None \<Rightarrow> None
      | Some v \<Rightarrow> (case hex_val ch of None \<Rightarrow> None | Some d \<Rightarrow> Some (16 * v + d)))"
  by (induction cs arbitrary: acc) (auto split: option.splits)

lemma nat_of_hex_of_nat: "nat_of_hex 0 (hex_of_nat n) = Some n"
proof (induction n rule: hex_of_nat.induct)
  case (1 n)
  show ?case
  proof (cases "n < 16")
    case True
    then show ?thesis by (simp add: hex_of_nat.simps [of n] hex_val_digit)
  next
    case False
    with 1 have "nat_of_hex 0 (hex_of_nat (n div 16)) = Some (n div 16)" by simp
    with False show ?thesis
      by (simp add: hex_of_nat.simps [of n] nat_of_hex_snoc hex_val_digit)
  qed
qed

lemma hex_of_nat_not_Nil: "hex_of_nat n \<noteq> []"
  by (subst hex_of_nat.simps) simp

lemma hex_digit_zero:
  assumes "n < 16"
  shows "hex_digit n = CHR ''0'' \<longleftrightarrow> n = 0"
proof
  assume "hex_digit n = CHR ''0''"
  then have "hex_val (hex_digit n) = hex_val (CHR ''0'')" by simp
  moreover have "hex_val (CHR ''0'') = Some 0" by (simp add: hex_val_def)
  ultimately show "n = 0" using assms by (simp add: hex_val_digit)
next
  show "n = 0 \<Longrightarrow> hex_digit n = CHR ''0''" by (simp add: hex_digit_0)
qed

lemma hd_hex_of_nat: "0 < n \<Longrightarrow> hd (hex_of_nat n) \<noteq> CHR ''0''"
proof (induction n rule: hex_of_nat.induct)
  case (1 n)
  show ?case
  proof (cases "n < 16")
    case True
    with 1 show ?thesis by (simp add: hex_of_nat.simps [of n] hex_digit_zero)
  next
    case False
    then have "0 < n div 16" by simp
    with 1 False have "hd (hex_of_nat (n div 16)) \<noteq> CHR ''0''" by simp
    with False show ?thesis
      by (simp add: hex_of_nat.simps [of n] hex_of_nat_not_Nil)
  qed
qed

lemma length_hex_of_nat_one: "length (hex_of_nat n) = 1 \<longleftrightarrow> n < 16"
  by (subst hex_of_nat.simps) (simp add: hex_of_nat_not_Nil)

lemma length_hex_fixed: "length (hex_fixed k n) = k"
  by (induction k arbitrary: n) auto

lemma nat_of_hex_fixed: "nat_of_hex 0 (hex_fixed k n) = Some (n mod 16 ^ k)"
proof (induction k arbitrary: n)
  case 0
  show ?case by simp
next
  case (Suc k)
  have "n mod (16 * 16 ^ k) = 16 * (n div 16 mod 16 ^ k) + n mod 16"
    by (rule mod_mult2_eq)
  with Suc [of "n div 16"] show ?case
    by (simp add: nat_of_hex_snoc hex_val_digit)
qed

lemma strip_0x_prefix: "strip_0x (''0x'' @ ds) = Some ds"
  by (simp add: strip_0x_def)

lemma DecodeBig_EncodeBig:
  assumes "0 \<le> n"
  shows "DecodeBig (EncodeBig n) = Inr n"
proof -
  have "hd (hex_of_nat (nat n)) \<noteq> CHR ''0''" if "1 < length (hex_of_nat (nat n))"
  proof -
    from that have "\<not> nat n < 16" using length_hex_of_nat_one [of "nat n"] by simp
    then show ?thesis by (simp add: hd_hex_of_nat)
  qed
  with assms show ?thesis
    unfolding DecodeBig_def EncodeBig_def
    by (auto simp add: strip_0x_prefix hex_of_nat_not_Nil nat_of_hex_of_nat
          simp del: append.simps)
qed

lemma decode_encode_word:
  fixes x :: "'a::len word"
  assumes "4 dvd LENGTH('a)"
  shows "decode_word (encode_word x) = Inr x"
proof -
  from assms obtain k where k: "LENGTH('a) = 4 * k" by (auto simp: dvd_def)
  have "(16::nat) ^ k = 2 ^ LENGTH('a)"
    by (simp add: k power_mult)
  moreover have "unat x < 2 ^ LENGTH('a)" by (rule unsigned_less)
  ultimately have "unat x mod 16 ^ (LENGTH('a) div 4) = unat x"
    by (simp add: k)
  then show ?thesis
    unfolding decode_word_def encode_word_def
    by (simp add: strip_0x_prefix length_hex_fixed nat_of_hex_fixed del: append.simps)
qed

lemma decode_encode_Address: "decode_word (encode_word (a :: Address)) = Inr a"
  by (rule decode_encode_word) simp

lemma decode_encode_Hash: "decode_word (encode_word (h :: Hash)) = Inr h"
  by (rule decode_encode_word) simp

lemma bytes_of_hex_bytes: "bytes_of_hex (concat (map hex_byte bs)) = Some bs"
proof (induction bs)
  case Nil
  show ?case by simp
next
  case (Cons b bs)
  have "unat b < 2 ^ LENGTH(8)" by (rule unsigned_less)
  then have "unat b < 256" by simp
  then have "unat b div 16 < 16" by simp
  moreover have "word_of_nat (16 * (unat b div 16) + unat b mod 16) = b" by simp
  ultimately show ?case using Cons by (simp add: hex_byte_def hex_val_digit)
qed

lemma decode_encode_Bytes: "decode_Bytes (encode_Bytes bs) = Inr bs"
  unfolding decode_Bytes_def encode_Bytes_def
  by (simp add: strip_0x_prefix bytes_of_hex_bytes del: append.simps)

section \<open>The operations in terms of their one call\<close>

lemma CallContext_eq:
  "CallContext h unmarshal result ctx method args w =
     (case h (remote w) ctx method args of
        (Inl e, s') \<Rightarrow> ((Some e, result), w\<lparr>remote := s', sent := sent w @ [(method, args)]\<rparr>)
      | (Inr raw, s') \<Rightarrow>
          (unmarshal raw result, w\<lparr>remote := s', sent := sent w @ [(method, args)]\<rparr>))"
  by (simp add: CallContext_def Let_def split: prod.splits sum.splits)

lemma CallContext_this: "this (snd (CallContext h unmarshal result ctx method args w)) = this w"
  by (simp add: CallContext_eq split: prod.splits sum.splits)

lemma CallContext_sent:
  "sent (snd (CallContext h unmarshal result ctx method args w)) = sent w @ [(method, args)]"
  by (simp add: CallContext_eq split: prod.splits sum.splits)

lemma CallContext_remote:
  "remote (snd (CallContext h unmarshal result ctx method args w)) =
     snd (h (remote w) ctx method args)"
  by (simp add: CallContext_eq split: prod.splits sum.splits)

lemma DialContext_error:
  "dial ctx rawurl = Inl err \<Longrightarrow> DialContext dial ctx rawurl = (None, Some err)"
  by (simp add: DialContext_def)

lemma DialContext_client:
  "dial ctx rawurl = Inr h \<Longrightarrow> DialContext dial ctx rawurl = (Some (NewClient h), None)"
  by (simp add: DialContext_def)

lemma SendUserOperation_eq:
  "SendUserOperation ctx op entryPoint w =
     (case CallContext (RpcClient.c (this w)) unmarshal_word 0 ctx
             ''eth_sendUserOperation'' [ArgUserOp op, ArgAddress entryPoint] w of
        ((err, result), w') \<Rightarrow> ((result, err), w'))"
  by (simp add: SendUserOperation_def Let_def split: prod.splits)

lemma EstimateUserOperationGas_eq:
  "EstimateUserOperationGas T ctx op entryPoint w =
     (case CallContext (RpcClient.c (this w)) (UnmarshalJSON T) (zeroValue T) ctx
             ''eth_estimateUserOperationGas'' [ArgUserOp op, ArgAddress entryPoint] w of
        ((None, estimate), w') \<Rightarrow> ((Some estimate, None), w')
      | ((Some e, estimate), w') \<Rightarrow> ((None, Some e), w'))"
  by (simp add: EstimateUserOperationGas_def Let_def split: prod.splits option.splits)

lemma EstimateUserOperationGasWithOverrides_eq:
  "EstimateUserOperationGasWithOverrides T ctx op entryPoint stateOverrides w =
     (case CallContext (RpcClient.c (this w)) (UnmarshalJSON T) (zeroValue T) ctx
             ''eth_estimateUserOperationGas''
             [ArgUserOp op, ArgAddress entryPoint, ArgOverrides stateOverrides] w of
        ((None, estimate), w') \<Rightarrow> ((Some estimate, None), w')
      | ((Some e, estimate), w') \<Rightarrow> ((None, Some e), w'))"
  by (simp add: EstimateUserOperationGasWithOverrides_def Let_def split: prod.splits option.splits)

lemma GetUserOperationReceipt_eq:
  "GetUserOperationReceipt T ctx userOpHash w =
     (case CallContext (RpcClient.c (this w)) (UnmarshalJSON T) (zeroValue T) ctx
             ''eth_getUserOperationReceipt'' [ArgHash userOpHash] w of
        ((None, receipt), w') \<Rightarrow> ((Some receipt, None), w')
      | ((Some e, receipt), w') \<Rightarrow> ((None, Some e), w'))"
  by (simp add: GetUserOperationReceipt_def Let_def split: prod.splits option.splits)

lemma GetUserOperationByHash_eq:
  "GetUserOperationByHash T ctx userOpHash w =
     (case CallContext (RpcClient.c (this w)) (UnmarshalJSON T) (zeroValue T) ctx
             ''eth_getUserOperationByHash'' [ArgHash userOpHash] w of
        ((None, op), w') \<Rightarrow> ((Some op, None), w')
      | ((Some e, op), w') \<Rightarrow> ((None, Some e), w'))"
  by (simp add: GetUserOperationByHash_def Let_def split: prod.splits option.splits)

lemma SupportedEntryPoints_eq:
  "SupportedEntryPoints ctx w =
     (case CallContext (RpcClient.c (this w)) (unmarshal_slice unmarshal_word 0) None ctx
             ''eth_supportedEntryPoints'' [] w of
        ((None, entryPoints), w') \<Rightarrow> ((entryPoints, None), w')
      | ((Some e, entryPoints), w') \<Rightarrow> ((None, Some e), w'))"
  by (simp add: SupportedEntryPoints_def Let_def split: prod.splits option.splits)

lemma ChainId_eq:
  "ChainId ctx w =
     (case CallContext (RpcClient.c (this w)) unmarshal_Big (Big 0) ctx ''eth_chainId'' [] w of
        ((None, result), w') \<Rightarrow> ((Some (big_Int result), None), w')
      | ((Some e, result), w') \<Rightarrow> ((None, Some e), w'))"
  by (simp add: ChainId_def Let_def split: prod.splits option.splits)

lemma BundlerClearState_eq:
  "BundlerClearState ctx w =
     (case CallContext (RpcClient.c (this w)) nil_result () ctx ''debug_bundler_clearState'' [] w of
        ((err, u), w') \<Rightarrow> (err, w'))"
  by (simp add: BundlerClearState_def Let_def split: prod.splits)

lemma BundlerSetBundlingMode_eq:
  "BundlerSetBundlingMode ctx mode w =
     (case CallContext (RpcClient.c (this w)) nil_result () ctx
             ''debug_bundler_setBundlingMode'' [ArgString mode] w of
        ((err, u), w') \<Rightarrow> (err, w'))"
  by (simp add: BundlerSetBundlingMode_def Let_def split: prod.splits)

lemma BundlerSendBundleNow_eq:
  "BundlerSendBundleNow HexToHash ctx w =
     (case CallContext (RpcClient.c (this w)) unmarshal_string [] ctx
             ''debug_bundler_sendBundleNow'' [] w of
        ((None, result), w') \<Rightarrow>
          (if result = [] then ((None, None), w') else ((Some (HexToHash result), None), w'))
      | ((Some e, result), w') \<Rightarrow> ((None, Some e), w'))"
  by (simp add: BundlerSendBundleNow_def Let_def split: prod.splits option.splits)

lemma range_ops_map:
  "i + length ops \<le> length uops \<Longrightarrow>
   range_ops i ops uops =
     Some (take i uops @ map ToUserOperation ops @ drop (i + length ops) uops)"
proof (induction ops arbitrary: i uops)
  case Nil
  show ?case by simp
next
  case (Cons op ops)
  from Cons.prems have i: "i < length uops" by simp
  from Cons.prems have "Suc i + length ops \<le> length (uops[i := ToUserOperation op])" by simp
  then have "range_ops (Suc i) ops (uops[i := ToUserOperation op]) =
      Some (take (Suc i) (uops[i := ToUserOperation op]) @ map ToUserOperation ops @
        drop (Suc i + length ops) (uops[i := ToUserOperation op]))"
    by (rule Cons.IH)
  moreover have "take (Suc i) (uops[i := ToUserOperation op]) = take i uops @ [ToUserOperation op]"
    using i by (simp add: take_Suc_conv_app_nth)
  moreover have "drop (Suc i + length ops) (uops[i := ToUserOperation op]) =
      drop (Suc i + length ops) uops"
    by simp
  ultimately show ?case using i by simp
qed

lemma range_ops_replicate:
  "range_ops 0 ops (replicate (length ops) None) = Some (map ToUserOperation ops)"
  using range_ops_map [of 0 ops "replicate (length ops) None"] by simp

lemma BundlerDumpMempool_eq:
  "BundlerDumpMempool ctx entryPoint w =
     (case CallContext (RpcClient.c (this w))
             (unmarshal_slice (unmarshal_ptr unmarshal_UserOperation zero_UserOperation) None)
             None ctx ''debug_bundler_dumpMempool'' [ArgAddress entryPoint] w of
        ((None, ops), w') \<Rightarrow> Some ((Some (map ToUserOperation (elems ops)), None), w')
      | ((Some e, ops), w') \<Rightarrow> Some ((None, Some e), w'))"
  by (simp add: BundlerDumpMempool_def Let_def range_ops_replicate split: prod.splits option.splits)

lemma test_world [simp]:
  "this (connected h s) = NewClient h" "remote (connected h s) = s" "sent (connected h s) = []"
  "RpcClient.c (NewClient h) = h"
  by (simp_all add: connected_def NewClient_def)

lemma SendUserOperation_snd:
  "snd (SendUserOperation ctx op entryPoint w) =
     snd (CallContext (RpcClient.c (this w)) unmarshal_word (0 :: Hash) ctx
            ''eth_sendUserOperation'' [ArgUserOp op, ArgAddress entryPoint] w)"
  by (simp add: SendUserOperation_eq split: prod.splits)

lemma EstimateUserOperationGas_snd:
  "snd (EstimateUserOperationGas T ctx op entryPoint w) =
     snd (CallContext (RpcClient.c (this w)) (UnmarshalJSON T) (zeroValue T) ctx
            ''eth_estimateUserOperationGas'' [ArgUserOp op, ArgAddress entryPoint] w)"
  by (simp add: EstimateUserOperationGas_eq split: prod.splits option.splits)

lemma EstimateUserOperationGasWithOverrides_snd:
  "snd (EstimateUserOperationGasWithOverrides T ctx op entryPoint stateOverrides w) =
     snd (CallContext (RpcClient.c (this w)) (UnmarshalJSON T) (zeroValue T) ctx
            ''eth_estimateUserOperationGas''
            [ArgUserOp op, ArgAddress entryPoint, ArgOverrides stateOverrides] w)"
  by (simp add: EstimateUserOperationGasWithOverrides_eq split: prod.splits option.splits)

lemma GetUserOperationReceipt_snd:
  "snd (GetUserOperationReceipt T ctx userOpHash w) =
     snd (CallContext (RpcClient.c (this w)) (UnmarshalJSON T) (zeroValue T) ctx
            ''eth_getUserOperationReceipt'' [ArgHash userOpHash] w)"
  by (simp add: GetUserOperationReceipt_eq split: prod.splits option.splits)

lemma GetUserOperationByHash_snd:
  "snd (GetUserOperationByHash T ctx userOpHash w) =
     snd (CallContext (RpcClient.c (this w)) (UnmarshalJSON T) (zeroValue T) ctx
            ''eth_getUserOperationByHash'' [ArgHash userOpHash] w)"
  by (simp add: GetUserOperationByHash_eq split: prod.splits option.splits)

lemma SupportedEntryPoints_snd:
  "snd (SupportedEntryPoints ctx w) =
     snd (CallContext (RpcClient.c (this w)) (unmarshal_slice unmarshal_word (0 :: Address))
            None ctx ''eth_supportedEntryPoints'' [] w)"
  by (simp add: SupportedEntryPoints_eq split: prod.splits option.splits)

lemma ChainId_snd:
  "snd (ChainId ctx w) =
     snd (CallContext (RpcClient.c (this w)) unmarshal_Big (Big 0) ctx ''eth_chainId'' [] w)"
  by (simp add: ChainId_eq split: prod.splits option.splits)

lemma BundlerClearState_snd:
  "snd (BundlerClearState ctx w) =
     snd (CallContext (RpcClient.c (this w)) nil_result () ctx ''debug_bundler_clearState'' [] w)"
  by (simp add: BundlerClearState_eq split: prod.splits)

lemma BundlerDumpMempool_snd:
  "map_option snd (BundlerDumpMempool ctx entryPoint w) =
     Some (snd (CallContext (RpcClient.c (this w))
                  (unmarshal_slice (unmarshal_ptr unmarshal_UserOperation zero_UserOperation) None)
                  None ctx ''debug_bundler_dumpMempool'' [ArgAddress entryPoint] w))"
  by (simp add: BundlerDumpMempool_eq split: prod.splits option.splits)

lemma BundlerSendBundleNow_snd:
  "snd (BundlerSendBundleNow HexToHash ctx w) =
     snd (CallContext (RpcClient.c (this w)) unmarshal_string [] ctx
            ''debug_bundler_sendBundleNow'' [] w)"
  by (simp add: BundlerSendBundleNow_eq split: prod.splits option.splits)

lemma BundlerSetBundlingMode_snd:
  "snd (BundlerSetBundlingMode ctx mode w) =
     snd (CallContext (RpcClient.c (this w)) nil_result () ctx
            ''debug_bundler_setBundlingMode'' [ArgString mode] w)"
  by (simp add: BundlerSetBundlingMode_eq split: prod.splits)

section \<open>An operation depends on the handle and the transport only\<close>

lemma CallContext_independent:
  assumes "remote v = remote w"
  shows "fst (CallContext h unmarshal z ctx meth args v) =
           fst (CallContext h unmarshal z ctx meth args w)"
    and "remote (snd (CallContext h unmarshal z ctx meth args v)) =
           remote (snd (CallContext h unmarshal z ctx meth args w))"
  using assms by (simp_all add: CallContext_eq split: prod.splits sum.splits)

lemma SendUserOperation_fst:
  "fst (SendUserOperation ctx op entryPoint w) =
     (case fst (CallContext (RpcClient.c (this w)) unmarshal_word (0 :: Hash) ctx
            ''eth_sendUserOperation'' [ArgUserOp op, ArgAddress entryPoint] w) of
        (err, result) \<Rightarrow> (result, err))"
  by (simp add: SendUserOperation_eq split: prod.splits)

lemma SendUserOperation_independent:
  assumes "this v = this w" and "remote v = remote w"
  shows "fst (SendUserOperation ctx op entryPoint v) = fst (SendUserOperation ctx op entryPoint w) \<and>
         remote (snd (SendUserOperation ctx op entryPoint v)) = remote (snd (SendUserOperation ctx op entryPoint w))"
  by (simp add: SendUserOperation_fst SendUserOperation_snd assms(1) CallContext_independent [OF assms(2)])

lemma EstimateUserOperationGas_fst:
  "fst (EstimateUserOperationGas T ctx op entryPoint w) =
     (case fst (CallContext (RpcClient.c (this w)) (UnmarshalJSON T) (zeroValue T) ctx
            ''eth_estimateUserOperationGas'' [ArgUserOp op, ArgAddress entryPoint] w) of
        (None, estimate) \<Rightarrow> (Some estimate, None)
      | (Some e, estimate) \<Rightarrow> (None, Some e))"
  by (simp add: EstimateUserOperationGas_eq split: prod.splits option.splits)

lemma EstimateUserOperationGas_independent:
  assumes "this v = this w" and "remote v = remote w"
  shows "fst (EstimateUserOperationGas T ctx op entryPoint v) = fst (EstimateUserOperationGas T ctx op entryPoint w) \<and>
         remote (snd (EstimateUserOperationGas T ctx op entryPoint v)) = remote (snd (EstimateUserOperationGas T ctx op entryPoint w))"
  by (simp add: EstimateUserOperationGas_fst EstimateUserOperationGas_snd assms(1) CallContext_independent [OF assms(2)])

lemma EstimateUserOperationGasWithOverrides_fst:
  "fst (EstimateUserOperationGasWithOverrides T ctx op entryPoint stateOverrides w) =
     (case fst (CallContext (RpcClient.c (this w)) (UnmarshalJSON T) (zeroValue T) ctx
            ''eth_estimateUserOperationGas''
            [ArgUserOp op, ArgAddress entryPoint, ArgOverrides stateOverrides] w) of
        (None, estimate) \<Rightarrow> (Some estimate, None)
      | (Some e, estimate) \<Rightarrow> (None, Some e))"
  by (simp add: EstimateUserOperationGasWithOverrides_eq split: prod.splits option.splits)

lemma EstimateUserOperationGasWithOverrides_independent:
  assumes "this v = this w" and "remote v = remote w"
  shows "fst (EstimateUserOperationGasWithOverrides T ctx op entryPoint stateOverrides v) = fst (EstimateUserOperationGasWithOverrides T ctx op entryPoint stateOverrides w) \<and>
         remote (snd (EstimateUserOperationGasWithOverrides T ctx op entryPoint stateOverrides v)) = remote (snd (EstimateUserOperationGasWithOverrides T ctx op entryPoint stateOverrides w))"
  by (simp add: EstimateUserOperationGasWithOverrides_fst EstimateUserOperationGasWithOverrides_snd assms(1) CallContext_independent [OF assms(2)])

lemma GetUserOperationReceipt_fst:
  "fst (GetUserOperationReceipt T ctx userOpHash w) =
     (case fst (CallContext (RpcClient.c (this w)) (UnmarshalJSON T) (zeroValue T) ctx
            ''eth_getUserOperationReceipt'' [ArgHash userOpHash] w) of
        (None, receipt) \<Rightarrow> (Some receipt, None)
      | (Some e, receipt) \<Rightarrow> (None, Some e))"
  by (simp add: GetUserOperationReceipt_eq split: prod.splits option.splits)

lemma GetUserOperationReceipt_independent:
  assumes "this v = this w" and "remote v = remote w"
  shows "fst (GetUserOperationReceipt T ctx userOpHash v) = fst (GetUserOperationReceipt T ctx userOpHash w) \<and>
         remote (snd (GetUserOperationReceipt T ctx userOpHash v)) = remote (snd (GetUserOperationReceipt T ctx userOpHash w))"
  by (simp add: GetUserOperationReceipt_fst GetUserOperationReceipt_snd assms(1) CallContext_independent [OF assms(2)])

lemma GetUserOperationByHash_fst:
  "fst (GetUserOperationByHash T ctx userOpHash w) =
     (case fst (CallContext (RpcClient.c (this w)) (UnmarshalJSON T) (zeroValue T) ctx
            ''eth_getUserOperationByHash'' [ArgHash userOpHash] w) of
        (None, op) \<Rightarrow> (Some op, None)
      | (Some e, op) \<Rightarrow> (None, Some e))"
  by (simp add: GetUserOperationByHash_eq split: prod.splits option.splits)

lemma GetUserOperationByHash_independent:
  assumes "this v = this w" and "remote v = remote w"
  shows "fst (GetUserOperationByHash T ctx userOpHash v) = fst (GetUserOperationByHash T ctx userOpHash w) \<and>
         remote (snd (GetUserOperationByHash T ctx userOpHash v)) = remote (snd (GetUserOperationByHash T ctx userOpHash w))"
  by (simp add: GetUserOperationByHash_fst GetUserOperationByHash_snd assms(1) CallContext_independent [OF assms(2)])

lemma SupportedEntryPoints_fst:
  "fst (SupportedEntryPoints ctx w) =
     (case fst (CallContext (RpcClient.c (this w)) (unmarshal_slice unmarshal_word (0 :: Address))
            None ctx ''eth_supportedEntryPoints'' [] w) of
        (None, entryPoints) \<Rightarrow> (entryPoints, None)
      | (Some e, entryPoints) \<Rightarrow> (None, Some e))"
  by (simp add: SupportedEntryPoints_eq split: prod.splits option.splits)

lemma SupportedEntryPoints_independent:
  assumes "this v = this w" and "remote v = remote w"
  shows "fst (SupportedEntryPoints ctx v) = fst (SupportedEntryPoints ctx w) \<and>
         remote (snd (SupportedEntryPoints ctx v)) = remote (snd (SupportedEntryPoints ctx w))"
  by (simp add: SupportedEntryPoints_fst SupportedEntryPoints_snd assms(1) CallContext_independent [OF assms(2)])

lemma ChainId_fst:
  "fst (ChainId ctx w) =
     (case fst (CallContext (RpcClient.c (this w)) unmarshal_Big (Big 0) ctx ''eth_chainId'' [] w) of
        (None, result) \<Rightarrow> (Some (big_Int result), None)
      | (Some e, result) \<Rightarrow> (None, Some e))"
  by (simp add: ChainId_eq split: prod.splits option.splits)

lemma ChainId_independent:
  assumes "this v = this w" and "remote v = remote w"
  shows "fst (ChainId ctx v) = fst (ChainId ctx w) \<and>
         remote (snd (ChainId ctx v)) = remote (snd (ChainId ctx w))"
  by (simp add: ChainId_fst ChainId_snd assms(1) CallContext_independent [OF assms(2)])

lemma BundlerClearState_fst:
  "fst (BundlerClearState ctx w) =
     (case fst (CallContext (RpcClient.c (this w)) nil_result () ctx ''debug_bundler_clearState'' [] w) of
        (err, u) \<Rightarrow> err)"
  by (simp add: BundlerClearState_eq split: prod.splits)

lemma BundlerClearState_independent:
  assumes "this v = this w" and "remote v = remote w"
  shows "fst (BundlerClearState ctx v) = fst (BundlerClearState ctx w) \<and>
         remote (snd (BundlerClearState ctx v)) = remote (snd (BundlerClearState ctx w))"
  by (simp add: BundlerClearState_fst BundlerClearState_snd assms(1) CallContext_independent [OF assms(2)])

lemma BundlerSendBundleNow_fst:
  "fst (BundlerSendBundleNow HexToHash ctx w) =
     (case fst (CallContext (RpcClient.c (this w)) unmarshal_string [] ctx
            ''debug_bundler_sendBundleNow'' [] w) of
        (None, result) \<Rightarrow> (if result = [] then (None, None) else (Some (HexToHash result), None))
      | (Some e, result) \<Rightarrow> (None, Some e))"
  by (simp add: BundlerSendBundleNow_eq split: prod.splits option.splits)

lemma BundlerSendBundleNow_independent:
  assumes "this v = this w" and "remote v = remote w"
  shows "fst (BundlerSendBundleNow HexToHash ctx v) = fst (BundlerSendBundleNow HexToHash ctx w) \<and>
         remote (snd (BundlerSendBundleNow HexToHash ctx v)) = remote (snd (BundlerSendBundleNow HexToHash ctx w))"
  by (simp add: BundlerSendBundleNow_fst BundlerSendBundleNow_snd assms(1) CallContext_independent [OF assms(2)])

lemma BundlerSetBundlingMode_fst:
  "fst (BundlerSetBundlingMode ctx mode w) =
     (case fst (CallContext (RpcClient.c (this w)) nil_result () ctx
            ''debug_bundler_setBundlingMode'' [ArgString mode] w) of
        (err, u) \<Rightarrow> err)"
  by (simp add: BundlerSetBundlingMode_eq split: prod.splits)

lemma BundlerSetBundlingMode_independent:
  assumes "this v = this w" and "remote v = remote w"
  shows "fst (BundlerSetBundlingMode ctx mode v) = fst (BundlerSetBundlingMode ctx mode w) \<and>
         remote (snd (BundlerSetBundlingMode ctx mode v)) = remote (snd (BundlerSetBundlingMode ctx mode w))"
  by (simp add: BundlerSetBundlingMode_fst BundlerSetBundlingMode_snd assms(1) CallContext_independent [OF assms(2)])

lemma BundlerDumpMempool_fst:
  "map_option fst (BundlerDumpMempool ctx entryPoint w) =
     Some (case fst (CallContext (RpcClient.c (this w))
                  (unmarshal_slice (unmarshal_ptr unmarshal_UserOperation zero_UserOperation) None)
                  None ctx ''debug_bundler_dumpMempool'' [ArgAddress entryPoint] w) of
        (None, ops) \<Rightarrow> (Some (map ToUserOperation (elems ops)), None)
      | (Some e, ops) \<Rightarrow> (None, Some e))"
  by (simp add: BundlerDumpMempool_eq split: prod.splits option.splits)

lemma BundlerDumpMempool_independent:
  assumes "this v = this w" and "remote v = remote w"
  shows "map_option fst (BundlerDumpMempool ctx entryPoint v) =
           map_option fst (BundlerDumpMempool ctx entryPoint w) \<and>
         map_option remote (map_option snd (BundlerDumpMempool ctx entryPoint v)) =
           map_option remote (map_option snd (BundlerDumpMempool ctx entryPoint w))"
  by (simp add: BundlerDumpMempool_fst BundlerDumpMempool_snd assms(1)
        CallContext_independent [OF assms(2)])

section \<open>The wire struct and the mempool dump\<close>

lemma unmarshal_Address_encode:
  "unmarshal_word (JString (encode_word (a :: Address))) v = (None, a)"
  by (simp add: unmarshal_word_def decode_encode_Address)

lemma unmarshal_Bytes_encode: "unmarshal_Bytes (JString (encode_Bytes bs)) v = (None, bs)"
  by (simp add: unmarshal_Bytes_def decode_encode_Bytes)

lemma unmarshal_Big_ptr_marshal:
  "natural p \<Longrightarrow>
   unmarshal_ptr unmarshal_Big (Big 0) (marshal_Big_ptr p) q = (None, map_option Big p)"
  by (cases p)
    (simp_all add: natural_def unmarshal_ptr_def marshal_Big_ptr_def unmarshal_Big_def
       DecodeBig_EncodeBig)

lemma ToInt_Big: "ToInt (map_option Big p) = p"
  by (cases p) (simp_all add: ToInt_def big_Int_def)

lemma ToUserOperation_Big:
  "ToUserOperation
     (Some \<lparr>UserOperation.Sender = userop_UserOperation.Sender op,
            UserOperation.Nonce = map_option Big (userop_UserOperation.Nonce op),
            UserOperation.InitCode = userop_UserOperation.InitCode op,
            UserOperation.CallData = userop_UserOperation.CallData op,
            UserOperation.CallGasLimit = map_option Big (userop_UserOperation.CallGasLimit op),
            UserOperation.VerificationGasLimit =
              map_option Big (userop_UserOperation.VerificationGasLimit op),
            UserOperation.PreVerificationGas =
              map_option Big (userop_UserOperation.PreVerificationGas op),
            UserOperation.MaxFeePerGas = map_option Big (userop_UserOperation.MaxFeePerGas op),
            UserOperation.MaxPriorityFeePerGas =
              map_option Big (userop_UserOperation.MaxPriorityFeePerGas op),
            UserOperation.PaymasterAndData = userop_UserOperation.PaymasterAndData op,
            UserOperation.Signature = userop_UserOperation.Signature op\<rparr>)
   = Some op"
  by (cases op) (simp add: ToUserOperation_def ToInt_Big)

lemma unmarshal_marshal_UserOperation:
  assumes "valid_UserOperation op"
  shows "unmarshal_UserOperation (marshal_UserOperation op) uo =
     (None,
      \<lparr>UserOperation.Sender = userop_UserOperation.Sender op,
       UserOperation.Nonce = map_option Big (userop_UserOperation.Nonce op),
       UserOperation.InitCode = userop_UserOperation.InitCode op,
       UserOperation.CallData = userop_UserOperation.CallData op,
       UserOperation.CallGasLimit = map_option Big (userop_UserOperation.CallGasLimit op),
       UserOperation.VerificationGasLimit =
         map_option Big (userop_UserOperation.VerificationGasLimit op),
       UserOperation.PreVerificationGas =
         map_option Big (userop_UserOperation.PreVerificationGas op),
       UserOperation.MaxFeePerGas = map_option Big (userop_UserOperation.MaxFeePerGas op),
       UserOperation.MaxPriorityFeePerGas =
         map_option Big (userop_UserOperation.MaxPriorityFeePerGas op),
       UserOperation.PaymasterAndData = userop_UserOperation.PaymasterAndData op,
       UserOperation.Signature = userop_UserOperation.Signature op\<rparr>)"
  using assms
  by (cases uo)
    (simp add: valid_UserOperation_def unmarshal_UserOperation_def marshal_UserOperation_def
       set_field_def unmarshal_Address_encode unmarshal_Bytes_encode unmarshal_Big_ptr_marshal)

lemma valid_example_op: "valid_UserOperation example_op"
  by (simp add: valid_UserOperation_def example_op_def natural_def)

lemma ToUserOperation_Some:
  "ToUserOperation (Some uo) =
     Some \<lparr>userop_UserOperation.Sender = UserOperation.Sender uo,
           userop_UserOperation.Nonce = ToInt (UserOperation.Nonce uo),
           userop_UserOperation.InitCode = UserOperation.InitCode uo,
           userop_UserOperation.CallData = UserOperation.CallData uo,
           userop_UserOperation.CallGasLimit = ToInt (UserOperation.CallGasLimit uo),
           userop_UserOperation.VerificationGasLimit = ToInt (UserOperation.VerificationGasLimit uo),
           userop_UserOperation.PreVerificationGas = ToInt (UserOperation.PreVerificationGas uo),
           userop_UserOperation.MaxFeePerGas = ToInt (UserOperation.MaxFeePerGas uo),
           userop_UserOperation.MaxPriorityFeePerGas = ToInt (UserOperation.MaxPriorityFeePerGas uo),
           userop_UserOperation.PaymasterAndData = UserOperation.PaymasterAndData uo,
           userop_UserOperation.Signature = UserOperation.Signature uo\<rparr>"
  by (simp add: ToUserOperation_def)

lemma BundlerDumpMempool_success:
  assumes "CallContext (RpcClient.c (this w))
             (unmarshal_slice (unmarshal_ptr unmarshal_UserOperation zero_UserOperation) None)
             None ctx ''debug_bundler_dumpMempool'' [ArgAddress entryPoint] w = ((None, ops), w')"
  shows "BundlerDumpMempool ctx entryPoint w =
           Some ((Some (map ToUserOperation (elems ops)), None), w')"
  using assms by (simp add: BundlerDumpMempool_eq)

lemma BundlerDumpMempool_element:
  assumes "CallContext (RpcClient.c (this w))
             (unmarshal_slice (unmarshal_ptr unmarshal_UserOperation zero_UserOperation) None)
             None ctx ''debug_bundler_dumpMempool'' [ArgAddress entryPoint] w = ((None, ops), w')"
    and "i < length (elems ops)"
    and "elems ops ! i =
           Some \<lparr>UserOperation.Sender = sender,
                 UserOperation.Nonce = map_option Big nonce,
                 UserOperation.InitCode = initCode,
                 UserOperation.CallData = callData,
                 UserOperation.CallGasLimit = map_option Big callGasLimit,
                 UserOperation.VerificationGasLimit = map_option Big verificationGasLimit,
                 UserOperation.PreVerificationGas = map_option Big preVerificationGas,
                 UserOperation.MaxFeePerGas = map_option Big maxFeePerGas,
                 UserOperation.MaxPriorityFeePerGas = map_option Big maxPriorityFeePerGas,
                 UserOperation.PaymasterAndData = paymasterAndData,
                 UserOperation.Signature = signature\<rparr>"
  shows "\<exists>uops. BundlerDumpMempool ctx entryPoint w = Some ((Some uops, None), w') \<and>
           length uops = length (elems ops) \<and>
           uops ! i =
             Some \<lparr>userop_UserOperation.Sender = sender,
                   userop_UserOperation.Nonce = nonce,
                   userop_UserOperation.InitCode = initCode,
                   userop_UserOperation.CallData = callData,
                   userop_UserOperation.CallGasLimit = callGasLimit,
                   userop_UserOperation.VerificationGasLimit = verificationGasLimit,
                   userop_UserOperation.PreVerificationGas = preVerificationGas,
                   userop_UserOperation.MaxFeePerGas = maxFeePerGas,
                   userop_UserOperation.MaxPriorityFeePerGas = maxPriorityFeePerGas,
                   userop_UserOperation.PaymasterAndData = paymasterAndData,
                   userop_UserOperation.Signature = signature\<rparr>"
proof -
  have "map ToUserOperation (elems ops) ! i = ToUserOperation (elems ops ! i)"
    using assms(2) by simp
  then show ?thesis
    using assms(3) by (simp add: BundlerDumpMempool_success [OF assms(1)] ToUserOperation_Some ToInt_Big)
qed

lemma mempool_answer_call:
  "CallContext (RpcClient.c (this (connected (answering (Inr mempool_answer)) ())))
     (unmarshal_slice (unmarshal_ptr unmarshal_UserOperation zero_UserOperation) None)
     None Background ''debug_bundler_dumpMempool'' [ArgAddress 0]
     (connected (answering (Inr mempool_answer)) ())
   = ((None, Some [None, Some (zero_UserOperation\<lparr>UserOperation.Nonce := Some (Big 5)\<rparr>)]),
      \<lparr>this = NewClient (answering (Inr mempool_answer)), remote = (),
       sent = [(''debug_bundler_dumpMempool'', [ArgAddress 0])]\<rparr>)"
  by (simp add: CallContext_eq answering_def connected_def mempool_answer_def
        unmarshal_slice_def unmarshal_ptr_def
        unmarshal_UserOperation_def set_field_def unmarshal_Big_def DecodeBig_def strip_0x_def
        hex_val_def zero_UserOperation_def NewClient_def)

lemma unmarshal_elems_marshal:
  assumes "list_all valid_UserOperation ops"
  shows "\<exists>ws. unmarshal_elems (unmarshal_ptr unmarshal_UserOperation zero_UserOperation) None
                 (map marshal_UserOperation ops) = (None, ws) \<and>
              map ToUserOperation ws = map Some ops"
  using assms
proof (induction ops)
  case Nil
  show ?case by simp
next
  case (Cons op ops)
  then obtain ws where
    ws: "unmarshal_elems (unmarshal_ptr unmarshal_UserOperation zero_UserOperation) None
           (map marshal_UserOperation ops) = (None, ws)"
    and conv: "map ToUserOperation ws = map Some ops"
    by auto
  from Cons.prems have valid: "valid_UserOperation op" by simp
  have "marshal_UserOperation op \<noteq> JNull"
    by (simp add: marshal_UserOperation_def)
  then have "unmarshal_ptr unmarshal_UserOperation zero_UserOperation (marshal_UserOperation op) None =
      (case unmarshal_UserOperation (marshal_UserOperation op) zero_UserOperation of
         (e, v) \<Rightarrow> (e, Some v))"
    by (simp add: unmarshal_ptr_def split: json.splits)
  with ws conv show ?case
    by (simp add: unmarshal_marshal_UserOperation [OF valid] ToUserOperation_Big)
qed

lemma BundlerDumpMempool_marshalled:
  assumes "RpcClient.c (this w) (remote w) ctx ''debug_bundler_dumpMempool'' [ArgAddress entryPoint]
             = (Inr (JArray (map marshal_UserOperation ops)), r)"
    and "list_all valid_UserOperation ops"
  shows "map_option fst (BundlerDumpMempool ctx entryPoint w) = Some (Some (map Some ops), None)"
proof -
  from unmarshal_elems_marshal [OF assms(2)] obtain ws where
    "unmarshal_elems (unmarshal_ptr unmarshal_UserOperation zero_UserOperation) None
       (map marshal_UserOperation ops) = (None, ws)"
    and "map ToUserOperation ws = map Some ops"
    by auto
  with assms(1) show ?thesis
    by (simp add: BundlerDumpMempool_eq CallContext_eq unmarshal_slice_def elems_def)
qed

section \<open>Claims\<close>

text \<open>
  C1. Whenever the call of \<^verbatim>\<open>BundlerSendBundleNow\<close> succeeds with a string from the server,
  an empty string gives the absent value (the nil hash pointer) with no error, neither an
  error nor a zero hash, and a non-empty string gives a pointer to the 32-byte hash that
  \<^verbatim>\<open>HexToHash\<close> reads from that string.
\<close>

theorem BundlerSendBundleNow_empty_is_absent:
  assumes "RpcClient.c (this w) (remote w) ctx ''debug_bundler_sendBundleNow'' [] = (Inr (JString s), r)"
  shows "fst (BundlerSendBundleNow HexToHash ctx w) =
           (if s = [] then (None, None) else (Some (HexToHash s), None))"
  using assms
  by (simp add: BundlerSendBundleNow_def CallContext_eq unmarshal_string_def Let_def)

text \<open>The statement at a server that answers the empty string, and at one that answers a hash.\<close>

theorem BundlerSendBundleNow_empty_is_absent_witness:
  "fst (BundlerSendBundleNow strict_hash Background (connected (answering (Inr (JString ''''))) ()))
     = (None, None) \<and>
   fst (BundlerSendBundleNow strict_hash Background
          (connected (answering (Inr (JString ''0x00000000000000000000000000000000000000000000000000000000000000ff''))) ()))
     = (Some 255, None)"
proof -
  have a: "RpcClient.c (this (connected (answering (Inr (JString s))) ())) (remote (connected (answering (Inr (JString s))) ()))
             Background ''debug_bundler_sendBundleNow'' [] = (Inr (JString s), ())" for s
    by (simp add: connected_def NewClient_def answering_def)
  have "strict_hash ''0x00000000000000000000000000000000000000000000000000000000000000ff'' = 255"
    by (simp add: strict_hash_def decode_word_def strip_0x_def hex_val_def)
  then show ?thesis
    using BundlerSendBundleNow_empty_is_absent [OF a [of "''''"], of strict_hash]
      BundlerSendBundleNow_empty_is_absent [OF a [of "''0x00000000000000000000000000000000000000000000000000000000000000ff''"], of strict_hash]
    by simp
qed

text \<open>
  C2, as stated, fails: at a server that answers \<^verbatim>\<open>null\<close> with no error,
  \<^verbatim>\<open>GetUserOperationReceipt\<close> and \<^verbatim>\<open>GetUserOperationByHash\<close> return a pointer to the
  zero-valued struct, not the absent value.
\<close>

theorem receipt_null_counterexample:
  "fst (GetUserOperationReceipt opaque_struct Background 0 (connected (answering (Inr JNull)) ()))
     = (Some [], None) \<and>
   fst (GetUserOperationReceipt opaque_struct Background 0 (connected (answering (Inr JNull)) ()))
     \<noteq> (None, None) \<and>
   fst (GetUserOperationByHash opaque_struct Background 0 (connected (answering (Inr JNull)) ()))
     = (Some [], None) \<and>
   fst (GetUserOperationByHash opaque_struct Background 0 (connected (answering (Inr JNull)) ()))
     \<noteq> (None, None)"
  by (simp add: GetUserOperationReceipt_eq GetUserOperationByHash_eq CallContext_eq
        answering_def opaque_struct_def)

text \<open>
  C2, amended. \<^verbatim>\<open>GetUserOperationReceipt\<close> and \<^verbatim>\<open>GetUserOperationByHash\<close> return a nil
  pointer exactly when they return an error: a nil pointer without an error never comes
  back. For a \<^verbatim>\<open>null\<close> result with no error, which leaves the struct as it is, they
  return a pointer to the zero-valued struct and no error.
\<close>

theorem lookup_result_never_nil_without_error:
  "(fst (fst (GetUserOperationReceipt T ctx userOpHash w)) = None
      \<longleftrightarrow> snd (fst (GetUserOperationReceipt T ctx userOpHash w)) \<noteq> None) \<and>
   (fst (fst (GetUserOperationByHash T' ctx userOpHash w)) = None
      \<longleftrightarrow> snd (fst (GetUserOperationByHash T' ctx userOpHash w)) \<noteq> None) \<and>
   (RpcClient.c (this w) (remote w) ctx ''eth_getUserOperationReceipt'' [ArgHash userOpHash]
        = (Inr JNull, r) \<and>
    UnmarshalJSON T JNull (zeroValue T) = (None, zeroValue T)
      \<longrightarrow> fst (GetUserOperationReceipt T ctx userOpHash w) = (Some (zeroValue T), None)) \<and>
   (RpcClient.c (this w) (remote w) ctx ''eth_getUserOperationByHash'' [ArgHash userOpHash]
        = (Inr JNull, r) \<and>
    UnmarshalJSON T' JNull (zeroValue T') = (None, zeroValue T')
      \<longrightarrow> fst (GetUserOperationByHash T' ctx userOpHash w) = (Some (zeroValue T'), None))"
  by (auto simp add: GetUserOperationReceipt_eq GetUserOperationByHash_eq CallContext_eq
        split: prod.splits sum.splits option.splits)

text \<open>The amended statement at a server that answers \<^verbatim>\<open>null\<close>.\<close>

theorem lookup_result_never_nil_without_error_witness:
  "RpcClient.c (this (connected (answering (Inr JNull)) ())) (remote (connected (answering (Inr JNull)) ()))
       Background ''eth_getUserOperationReceipt'' [ArgHash 0] = (Inr JNull, ()) \<and>
   RpcClient.c (this (connected (answering (Inr JNull)) ())) (remote (connected (answering (Inr JNull)) ()))
       Background ''eth_getUserOperationByHash'' [ArgHash 0] = (Inr JNull, ()) \<and>
   UnmarshalJSON opaque_struct JNull (zeroValue opaque_struct) = (None, zeroValue opaque_struct) \<and>
   fst (GetUserOperationReceipt opaque_struct Background 0 (connected (answering (Inr JNull)) ()))
     = (Some (zeroValue opaque_struct), None) \<and>
   fst (GetUserOperationByHash opaque_struct Background 0 (connected (answering (Inr JNull)) ()))
     = (Some (zeroValue opaque_struct), None)"
  using lookup_result_never_nil_without_error
    [of opaque_struct Background 0 "connected (answering (Inr JNull)) ()" opaque_struct "()"]
  by (simp add: answering_def opaque_struct_def)

text \<open>
  C4. \<^verbatim>\<open>EstimateUserOperationGasWithOverrides\<close> puts on the wire exactly one request, of method
  \<^verbatim>\<open>eth_estimateUserOperationGas\<close> with exactly three positional parameters (the user
  operation, the entry point address, the override mapping), and \<^verbatim>\<open>EstimateUserOperationGas\<close>
  exactly one request of the same method with exactly two, the override mapping not among
  them. The state behind the transport is the one that single round trip leaves.
\<close>

theorem estimate_gas_parameters:
  "sent (snd (EstimateUserOperationGasWithOverrides T ctx op entryPoint stateOverrides w)) =
     sent w @ [(''eth_estimateUserOperationGas'',
                [ArgUserOp op, ArgAddress entryPoint, ArgOverrides stateOverrides])] \<and>
   remote (snd (EstimateUserOperationGasWithOverrides T ctx op entryPoint stateOverrides w)) =
     snd (RpcClient.c (this w) (remote w) ctx ''eth_estimateUserOperationGas''
            [ArgUserOp op, ArgAddress entryPoint, ArgOverrides stateOverrides]) \<and>
   sent (snd (EstimateUserOperationGas T ctx op entryPoint w)) =
     sent w @ [(''eth_estimateUserOperationGas'', [ArgUserOp op, ArgAddress entryPoint])] \<and>
   remote (snd (EstimateUserOperationGas T ctx op entryPoint w)) =
     snd (RpcClient.c (this w) (remote w) ctx ''eth_estimateUserOperationGas''
            [ArgUserOp op, ArgAddress entryPoint])"
  by (simp add: EstimateUserOperationGasWithOverrides_eq EstimateUserOperationGas_eq CallContext_eq
        split: prod.splits sum.splits option.splits)

text \<open>
  C6. For every user operation and entry point address, \<^verbatim>\<open>SendUserOperation\<close> puts on the
  wire exactly one request, of method \<^verbatim>\<open>eth_sendUserOperation\<close> with exactly two positional
  parameters, the operation and then the entry point address; the state behind the
  transport is the one that single round trip leaves; and when the server answers with a
  hash in its encoding, that 32-byte hash is returned with no error.
\<close>

theorem SendUserOperation_one_call:
  "sent (snd (SendUserOperation ctx op entryPoint w)) =
     sent w @ [(''eth_sendUserOperation'', [ArgUserOp op, ArgAddress entryPoint])] \<and>
   remote (snd (SendUserOperation ctx op entryPoint w)) =
     snd (RpcClient.c (this w) (remote w) ctx ''eth_sendUserOperation''
            [ArgUserOp op, ArgAddress entryPoint]) \<and>
   (RpcClient.c (this w) (remote w) ctx ''eth_sendUserOperation''
        [ArgUserOp op, ArgAddress entryPoint] = (Inr (JString (encode_word h)), r)
      \<longrightarrow> fst (SendUserOperation ctx op entryPoint w) = (h, None))"
  by (simp add: SendUserOperation_eq CallContext_eq unmarshal_word_def decode_encode_Hash
        split: prod.splits sum.splits)

text \<open>
  The example scenario: the operation with sender \<^verbatim>\<open>0xAAAA...\<close> sent to the entry point
  \<^verbatim>\<open>0xBBBB...\<close>, at a server that answers with a hash.
\<close>

theorem SendUserOperation_one_call_witness:
  "RpcClient.c (this (connected (answering (Inr (JString (encode_word (0xFF :: Hash))))) ()))
       (remote (connected (answering (Inr (JString (encode_word (0xFF :: Hash))))) ()))
       Background ''eth_sendUserOperation''
       [ArgUserOp (Some example_op), ArgAddress 0xBBBBBBBBBBBBBBBBBBBBBBBBBBBBBBBBBBBBBBBB]
     = (Inr (JString (encode_word (0xFF :: Hash))), ()) \<and>
   fst (SendUserOperation Background (Some example_op) 0xBBBBBBBBBBBBBBBBBBBBBBBBBBBBBBBBBBBBBBBB
          (connected (answering (Inr (JString (encode_word (0xFF :: Hash))))) ())) = (0xFF, None) \<and>
   sent (snd (SendUserOperation Background (Some example_op) 0xBBBBBBBBBBBBBBBBBBBBBBBBBBBBBBBBBBBBBBBB
          (connected (answering (Inr (JString (encode_word (0xFF :: Hash))))) ()))) =
     [(''eth_sendUserOperation'',
       [ArgUserOp (Some example_op), ArgAddress 0xBBBBBBBBBBBBBBBBBBBBBBBBBBBBBBBBBBBBBBBB])]"
  using SendUserOperation_one_call
    [of Background "Some example_op" "0xBBBBBBBBBBBBBBBBBBBBBBBBBBBBBBBBBBBBBBBB"
        "connected (answering (Inr (JString (encode_word (0xFF :: Hash))))) ()" "0xFF" "()"]
  by (simp add: answering_def)

text \<open>
  C8. In every operation, when its call fails with an error (a transport failure, a
  cancellation or a server-reported error, which the call hands back as it is, or a
  decoding failure), that same error is what the operation returns, the state is the one
  the single call left (one request on the wire: no retry), and every operation that
  returns a pointer or a slice returns \<^verbatim>\<open>nil\<close> with it. \<^verbatim>\<open>SendUserOperation\<close>, which returns
  its hash by value, returns the result variable as the call left it.
\<close>

theorem errors_returned_unchanged:
  "(let R = CallContext (RpcClient.c (this w)) unmarshal_word (0 :: Hash) ctx
              ''eth_sendUserOperation'' [ArgUserOp op, ArgAddress entryPoint] w
    in fst (fst R) = Some e \<longrightarrow>
       SendUserOperation ctx op entryPoint w = ((snd (fst R), Some e), snd R)) \<and>
   (let R = CallContext (RpcClient.c (this w)) (UnmarshalJSON G) (zeroValue G) ctx
              ''eth_estimateUserOperationGas'' [ArgUserOp op, ArgAddress entryPoint] w
    in fst (fst R) = Some e \<longrightarrow>
       EstimateUserOperationGas G ctx op entryPoint w = ((None, Some e), snd R)) \<and>
   (let R = CallContext (RpcClient.c (this w)) (UnmarshalJSON G) (zeroValue G) ctx
              ''eth_estimateUserOperationGas''
              [ArgUserOp op, ArgAddress entryPoint, ArgOverrides stateOverrides] w
    in fst (fst R) = Some e \<longrightarrow>
       EstimateUserOperationGasWithOverrides G ctx op entryPoint stateOverrides w =
         ((None, Some e), snd R)) \<and>
   (let R = CallContext (RpcClient.c (this w)) (UnmarshalJSON T) (zeroValue T) ctx
              ''eth_getUserOperationReceipt'' [ArgHash userOpHash] w
    in fst (fst R) = Some e \<longrightarrow>
       GetUserOperationReceipt T ctx userOpHash w = ((None, Some e), snd R)) \<and>
   (let R = CallContext (RpcClient.c (this w)) (UnmarshalJSON L) (zeroValue L) ctx
              ''eth_getUserOperationByHash'' [ArgHash userOpHash] w
    in fst (fst R) = Some e \<longrightarrow>
       GetUserOperationByHash L ctx userOpHash w = ((None, Some e), snd R)) \<and>
   (let R = CallContext (RpcClient.c (this w)) (unmarshal_slice unmarshal_word (0 :: Address))
              None ctx ''eth_supportedEntryPoints'' [] w
    in fst (fst R) = Some e \<longrightarrow>
       SupportedEntryPoints ctx w = ((None, Some e), snd R)) \<and>
   (let R = CallContext (RpcClient.c (this w)) unmarshal_Big (Big 0) ctx ''eth_chainId'' [] w
    in fst (fst R) = Some e \<longrightarrow>
       ChainId ctx w = ((None, Some e), snd R)) \<and>
   (let R = CallContext (RpcClient.c (this w)) nil_result () ctx
              ''debug_bundler_clearState'' [] w
    in fst (fst R) = Some e \<longrightarrow>
       BundlerClearState ctx w = (Some e, snd R)) \<and>
   (let R = CallContext (RpcClient.c (this w))
              (unmarshal_slice (unmarshal_ptr unmarshal_UserOperation zero_UserOperation) None)
              None ctx ''debug_bundler_dumpMempool'' [ArgAddress entryPoint] w
    in fst (fst R) = Some e \<longrightarrow>
       BundlerDumpMempool ctx entryPoint w = Some ((None, Some e), snd R)) \<and>
   (let R = CallContext (RpcClient.c (this w)) unmarshal_string [] ctx
              ''debug_bundler_sendBundleNow'' [] w
    in fst (fst R) = Some e \<longrightarrow>
       BundlerSendBundleNow HexToHash ctx w = ((None, Some e), snd R)) \<and>
   (let R = CallContext (RpcClient.c (this w)) nil_result () ctx
              ''debug_bundler_setBundlingMode'' [ArgString mode] w
    in fst (fst R) = Some e \<longrightarrow>
       BundlerSetBundlingMode ctx mode w = (Some e, snd R)) \<and>
   (h (remote v) ctx meth args = (Inl e, s) \<longrightarrow>
      CallContext h unmarshal z ctx meth args v =
        ((Some e, z), v\<lparr>remote := s, sent := sent v @ [(meth, args)]\<rparr>)) \<and>
   (h (remote v) ctx meth args = (Inr raw, s) \<and> fst (unmarshal raw z) = Some e \<longrightarrow>
      fst (fst (CallContext h unmarshal z ctx meth args v)) = Some e \<and>
      snd (CallContext h unmarshal z ctx meth args v) =
        v\<lparr>remote := s, sent := sent v @ [(meth, args)]\<rparr>) \<and>
   sent (snd (CallContext h unmarshal z ctx meth args v)) = sent v @ [(meth, args)]"
proof (intro conjI)
  show "let R = CallContext (RpcClient.c (this w)) unmarshal_word (0 :: Hash) ctx
              ''eth_sendUserOperation'' [ArgUserOp op, ArgAddress entryPoint] w
    in fst (fst R) = Some e \<longrightarrow>
       SendUserOperation ctx op entryPoint w = ((snd (fst R), Some e), snd R)"
    by (simp add: Let_def SendUserOperation_eq split: prod.splits)
  show "let R = CallContext (RpcClient.c (this w)) (UnmarshalJSON G) (zeroValue G) ctx
              ''eth_estimateUserOperationGas'' [ArgUserOp op, ArgAddress entryPoint] w
    in fst (fst R) = Some e \<longrightarrow>
       EstimateUserOperationGas G ctx op entryPoint w = ((None, Some e), snd R)"
    by (simp add: Let_def EstimateUserOperationGas_eq split: prod.splits)
  show "let R = CallContext (RpcClient.c (this w)) (UnmarshalJSON G) (zeroValue G) ctx
              ''eth_estimateUserOperationGas''
              [ArgUserOp op, ArgAddress entryPoint, ArgOverrides stateOverrides] w
    in fst (fst R) = Some e \<longrightarrow>
       EstimateUserOperationGasWithOverrides G ctx op entryPoint stateOverrides w =
         ((None, Some e), snd R)"
    by (simp add: Let_def EstimateUserOperationGasWithOverrides_eq split: prod.splits)
  show "let R = CallContext (RpcClient.c (this w)) (UnmarshalJSON T) (zeroValue T) ctx
              ''eth_getUserOperationReceipt'' [ArgHash userOpHash] w
    in fst (fst R) = Some e \<longrightarrow>
       GetUserOperationReceipt T ctx userOpHash w = ((None, Some e), snd R)"
    by (simp add: Let_def GetUserOperationReceipt_eq split: prod.splits)
  show "let R = CallContext (RpcClient.c (this w)) (UnmarshalJSON L) (zeroValue L) ctx
              ''eth_getUserOperationByHash'' [ArgHash userOpHash] w
    in fst (fst R) = Some e \<longrightarrow>
       GetUserOperationByHash L ctx userOpHash w = ((None, Some e), snd R)"
    by (simp add: Let_def GetUserOperationByHash_eq split: prod.splits)
  show "let R = CallContext (RpcClient.c (this w)) (unmarshal_slice unmarshal_word (0 :: Address))
              None ctx ''eth_supportedEntryPoints'' [] w
    in fst (fst R) = Some e \<longrightarrow>
       SupportedEntryPoints ctx w = ((None, Some e), snd R)"
    by (simp add: Let_def SupportedEntryPoints_eq split: prod.splits)
  show "let R = CallContext (RpcClient.c (this w)) unmarshal_Big (Big 0) ctx ''eth_chainId'' [] w
    in fst (fst R) = Some e \<longrightarrow>
       ChainId ctx w = ((None, Some e), snd R)"
    by (simp add: Let_def ChainId_eq split: prod.splits)
  show "let R = CallContext (RpcClient.c (this w)) nil_result () ctx
              ''debug_bundler_clearState'' [] w
    in fst (fst R) = Some e \<longrightarrow>
       BundlerClearState ctx w = (Some e, snd R)"
    by (simp add: Let_def BundlerClearState_eq split: prod.splits)
  show "let R = CallContext (RpcClient.c (this w))
              (unmarshal_slice (unmarshal_ptr unmarshal_UserOperation zero_UserOperation) None)
              None ctx ''debug_bundler_dumpMempool'' [ArgAddress entryPoint] w
    in fst (fst R) = Some e \<longrightarrow>
       BundlerDumpMempool ctx entryPoint w = Some ((None, Some e), snd R)"
    by (simp add: Let_def BundlerDumpMempool_eq split: prod.splits)
  show "let R = CallContext (RpcClient.c (this w)) unmarshal_string [] ctx
              ''debug_bundler_sendBundleNow'' [] w
    in fst (fst R) = Some e \<longrightarrow>
       BundlerSendBundleNow HexToHash ctx w = ((None, Some e), snd R)"
    by (simp add: Let_def BundlerSendBundleNow_eq split: prod.splits)
  show "let R = CallContext (RpcClient.c (this w)) nil_result () ctx
              ''debug_bundler_setBundlingMode'' [ArgString mode] w
    in fst (fst R) = Some e \<longrightarrow>
       BundlerSetBundlingMode ctx mode w = (Some e, snd R)"
    by (simp add: Let_def BundlerSetBundlingMode_eq split: prod.splits)
  show "h (remote v) ctx meth args = (Inl e, s) \<longrightarrow>
      CallContext h unmarshal z ctx meth args v =
        ((Some e, z), v\<lparr>remote := s, sent := sent v @ [(meth, args)]\<rparr>)"
    by (simp add: CallContext_eq)
  show "h (remote v) ctx meth args = (Inr raw, s) \<and> fst (unmarshal raw z) = Some e \<longrightarrow>
      fst (fst (CallContext h unmarshal z ctx meth args v)) = Some e \<and>
      snd (CallContext h unmarshal z ctx meth args v) =
        v\<lparr>remote := s, sent := sent v @ [(meth, args)]\<rparr>"
    by (simp add: CallContext_eq)
  show "sent (snd (CallContext h unmarshal z ctx meth args v)) = sent v @ [(meth, args)]"
    by (rule CallContext_sent)
qed

text \<open>
  The statement at a transport on which every call is cancelled, at a server whose answer
  to \<^verbatim>\<open>eth_chainId\<close> is not a string, and at a transport that fails the first call and
  would answer the second: the error of the first comes back, after one round trip.
\<close>

theorem errors_returned_unchanged_witness:
  "fst (SendUserOperation Background (Some example_op) 0xBBBBBBBBBBBBBBBBBBBBBBBBBBBBBBBBBBBBBBBB
          (connected (answering (Inl Cancelled)) ())) = (0, Some Cancelled) \<and>
   fst (EstimateUserOperationGas opaque_struct Background (Some example_op)
          0xBBBBBBBBBBBBBBBBBBBBBBBBBBBBBBBBBBBBBBBB (connected (answering (Inl Cancelled)) ()))
     = (None, Some Cancelled) \<and>
   fst (EstimateUserOperationGasWithOverrides opaque_struct Background (Some example_op)
          0xBBBBBBBBBBBBBBBBBBBBBBBBBBBBBBBBBBBBBBBB Map.empty
          (connected (answering (Inl Cancelled)) ()))
     = (None, Some Cancelled) \<and>
   fst (GetUserOperationReceipt opaque_struct Background 0
          (connected (answering (Inl Cancelled)) ())) = (None, Some Cancelled) \<and>
   fst (GetUserOperationByHash opaque_struct Background 0
          (connected (answering (Inl Cancelled)) ())) = (None, Some Cancelled) \<and>
   fst (SupportedEntryPoints Background (connected (answering (Inl Cancelled)) ()))
     = (None, Some Cancelled) \<and>
   fst (ChainId Background (connected (answering (Inl Cancelled)) ())) = (None, Some Cancelled) \<and>
   fst (BundlerClearState Background (connected (answering (Inl Cancelled)) ()))
     = Some Cancelled \<and>
   map_option fst (BundlerDumpMempool Background 0xBBBBBBBBBBBBBBBBBBBBBBBBBBBBBBBBBBBBBBBB
          (connected (answering (Inl Cancelled)) ())) = Some (None, Some Cancelled) \<and>
   fst (BundlerSendBundleNow strict_hash Background (connected (answering (Inl Cancelled)) ()))
     = (None, Some Cancelled) \<and>
   fst (BundlerSetBundlingMode Background ''manual'' (connected (answering (Inl Cancelled)) ()))
     = Some Cancelled \<and>
   fst (ChainId Background (connected (answering (Inr (JBool True))) ()))
     = (None, Some (DecodeError ''cannot unmarshal non-string into a big integer'')) \<and>
   sent (snd (ChainId Background (connected (answering (Inr (JBool True))) ())))
     = [(''eth_chainId'', [])] \<and>
   ChainId Background (connected (failing_once Cancelled (JString ''0x1'')) 0)
     = ((None, Some Cancelled),
        \<lparr>this = NewClient (failing_once Cancelled (JString ''0x1'')), remote = 1,
         sent = [(''eth_chainId'', [])]\<rparr>)"
proof -
  note a = errors_returned_unchanged
    [where w = "connected (answering (Inl Cancelled)) ()" and ctx = Background
       and op = "Some example_op" and entryPoint = "0xBBBBBBBBBBBBBBBBBBBBBBBBBBBBBBBBBBBBBBBB"
       and e = Cancelled and G = opaque_struct and T = opaque_struct and L = opaque_struct
       and stateOverrides = Map.empty and userOpHash = 0 and HexToHash = strict_hash
       and mode = "''manual''" and h = "answering (Inl Cancelled)"
       and v = "connected (answering (Inl Cancelled)) ()" and meth = "''eth_chainId''"
       and args = "[]" and s = "()" and unmarshal = unmarshal_Big and z = "Big 0"]
  note b = errors_returned_unchanged
    [where w = "connected (answering (Inr (JBool True))) ()" and ctx = Background
       and e = "DecodeError ''cannot unmarshal non-string into a big integer''"
       and h = "answering (Inr (JBool True))"
       and v = "connected (answering (Inr (JBool True))) ()" and meth = "''eth_chainId''"
       and args = "[]" and s = "()" and unmarshal = unmarshal_Big and z = "Big 0"
       and raw = "JBool True"]
  have c: "CallContext (answering (Inl Cancelled)) um z0 Background m a0 (connected (answering (Inl Cancelled)) ())
             = ((Some Cancelled, z0), \<lparr>this = NewClient (answering (Inl Cancelled)), remote = (), sent = [(m, a0)]\<rparr>)"
    for um :: "json \<Rightarrow> 'x \<Rightarrow> error option \<times> 'x" and z0 m a0
    by (simp add: CallContext_eq answering_def connected_def)
  have d: "CallContext (answering (Inr (JBool True))) unmarshal_Big (Big 0) Background ''eth_chainId'' []
             (connected (answering (Inr (JBool True))) ())
             = ((Some (DecodeError ''cannot unmarshal non-string into a big integer''), Big 0),
                \<lparr>this = NewClient (answering (Inr (JBool True))), remote = (), sent = [(''eth_chainId'', [])]\<rparr>)"
    by (simp add: CallContext_eq answering_def connected_def unmarshal_Big_def)
  note b7 = b [THEN conjunct2, THEN conjunct2, THEN conjunct2, THEN conjunct2, THEN conjunct2,
    THEN conjunct2, THEN conjunct1]
  have e: "ChainId Background (connected (answering (Inr (JBool True))) ()) =
      ((None, Some (DecodeError ''cannot unmarshal non-string into a big integer'')),
       \<lparr>this = NewClient (answering (Inr (JBool True))), remote = (), sent = [(''eth_chainId'', [])]\<rparr>)"
    using b7 by (simp add: Let_def d)
  note f = errors_returned_unchanged
    [where w = "connected (failing_once Cancelled (JString ''0x1'')) 0" and ctx = Background
       and e = Cancelled,
     THEN conjunct2, THEN conjunct2, THEN conjunct2, THEN conjunct2, THEN conjunct2,
     THEN conjunct2, THEN conjunct1]
  have g: "CallContext (failing_once Cancelled (JString ''0x1'')) unmarshal_Big (Big 0) Background
             ''eth_chainId'' [] (connected (failing_once Cancelled (JString ''0x1'')) 0)
             = ((Some Cancelled, Big 0),
                \<lparr>this = NewClient (failing_once Cancelled (JString ''0x1'')), remote = 1,
                 sent = [(''eth_chainId'', [])]\<rparr>)"
    by (simp add: CallContext_eq failing_once_def connected_def)
  have once: "ChainId Background (connected (failing_once Cancelled (JString ''0x1'')) 0)
     = ((None, Some Cancelled),
        \<lparr>this = NewClient (failing_once Cancelled (JString ''0x1'')), remote = 1,
         sent = [(''eth_chainId'', [])]\<rparr>)"
    using f by (simp add: Let_def g)
  from a show ?thesis
    by (simp add: Let_def c e once)
qed

text \<open>
  C9. The client's state is the transport handle, fixed by \<^verbatim>\<open>NewClient\<close>, and no operation,
  whether it succeeds or fails, changes it: after any call the client struct is the one
  before it. So calls are independent of each other and of their order: from any two states
  with the same client struct and the same state behind the transport, whatever calls were
  made before and in whatever order, an operation returns the same results and leaves the
  same state behind the transport.
\<close>

theorem client_state_unchanged:
  "RpcClient.c (NewClient h) = h \<and>
   this (snd (SendUserOperation ctx op entryPoint w)) = this w \<and>
   this (snd (EstimateUserOperationGas G ctx op entryPoint w)) = this w \<and>
   this (snd (EstimateUserOperationGasWithOverrides G ctx op entryPoint stateOverrides w)) = this w \<and>
   this (snd (GetUserOperationReceipt R ctx userOpHash w)) = this w \<and>
   this (snd (GetUserOperationByHash L ctx userOpHash w)) = this w \<and>
   this (snd (SupportedEntryPoints ctx w)) = this w \<and>
   this (snd (ChainId ctx w)) = this w \<and>
   this (snd (BundlerClearState ctx w)) = this w \<and>
   map_option this (map_option snd (BundlerDumpMempool ctx entryPoint w)) = Some (this w) \<and>
   this (snd (BundlerSendBundleNow HexToHash ctx w)) = this w \<and>
   this (snd (BundlerSetBundlingMode ctx mode w)) = this w \<and>
   (this v = this w \<and> remote v = remote w \<longrightarrow>
      fst (SendUserOperation ctx op entryPoint v) = fst (SendUserOperation ctx op entryPoint w) \<and>
      remote (snd (SendUserOperation ctx op entryPoint v)) =
        remote (snd (SendUserOperation ctx op entryPoint w)) \<and>
      fst (EstimateUserOperationGas G ctx op entryPoint v) =
        fst (EstimateUserOperationGas G ctx op entryPoint w) \<and>
      remote (snd (EstimateUserOperationGas G ctx op entryPoint v)) =
        remote (snd (EstimateUserOperationGas G ctx op entryPoint w)) \<and>
      fst (EstimateUserOperationGasWithOverrides G ctx op entryPoint stateOverrides v) =
        fst (EstimateUserOperationGasWithOverrides G ctx op entryPoint stateOverrides w) \<and>
      remote (snd (EstimateUserOperationGasWithOverrides G ctx op entryPoint stateOverrides v)) =
        remote (snd (EstimateUserOperationGasWithOverrides G ctx op entryPoint stateOverrides w)) \<and>
      fst (GetUserOperationReceipt R ctx userOpHash v) =
        fst (GetUserOperationReceipt R ctx userOpHash w) \<and>
      remote (snd (GetUserOperationReceipt R ctx userOpHash v)) =
        remote (snd (GetUserOperationReceipt R ctx userOpHash w)) \<and>
      fst (GetUserOperationByHash L ctx userOpHash v) =
        fst (GetUserOperationByHash L ctx userOpHash w) \<and>
      remote (snd (GetUserOperationByHash L ctx userOpHash v)) =
        remote (snd (GetUserOperationByHash L ctx userOpHash w)) \<and>
      fst (SupportedEntryPoints ctx v) = fst (SupportedEntryPoints ctx w) \<and>
      remote (snd (SupportedEntryPoints ctx v)) = remote (snd (SupportedEntryPoints ctx w)) \<and>
      fst (ChainId ctx v) = fst (ChainId ctx w) \<and>
      remote (snd (ChainId ctx v)) = remote (snd (ChainId ctx w)) \<and>
      fst (BundlerClearState ctx v) = fst (BundlerClearState ctx w) \<and>
      remote (snd (BundlerClearState ctx v)) = remote (snd (BundlerClearState ctx w)) \<and>
      map_option fst (BundlerDumpMempool ctx entryPoint v) =
        map_option fst (BundlerDumpMempool ctx entryPoint w) \<and>
      map_option remote (map_option snd (BundlerDumpMempool ctx entryPoint v)) =
        map_option remote (map_option snd (BundlerDumpMempool ctx entryPoint w)) \<and>
      fst (BundlerSendBundleNow HexToHash ctx v) = fst (BundlerSendBundleNow HexToHash ctx w) \<and>
      remote (snd (BundlerSendBundleNow HexToHash ctx v)) =
        remote (snd (BundlerSendBundleNow HexToHash ctx w)) \<and>
      fst (BundlerSetBundlingMode ctx mode v) = fst (BundlerSetBundlingMode ctx mode w) \<and>
      remote (snd (BundlerSetBundlingMode ctx mode v)) =
        remote (snd (BundlerSetBundlingMode ctx mode w)))"
proof -
  have frame:
    "RpcClient.c (NewClient h) = h \<and>
     this (snd (SendUserOperation ctx op entryPoint w)) = this w \<and>
     this (snd (EstimateUserOperationGas G ctx op entryPoint w)) = this w \<and>
     this (snd (EstimateUserOperationGasWithOverrides G ctx op entryPoint stateOverrides w)) = this w \<and>
     this (snd (GetUserOperationReceipt R ctx userOpHash w)) = this w \<and>
     this (snd (GetUserOperationByHash L ctx userOpHash w)) = this w \<and>
     this (snd (SupportedEntryPoints ctx w)) = this w \<and>
     this (snd (ChainId ctx w)) = this w \<and>
     this (snd (BundlerClearState ctx w)) = this w \<and>
     map_option this (map_option snd (BundlerDumpMempool ctx entryPoint w)) = Some (this w) \<and>
     this (snd (BundlerSendBundleNow HexToHash ctx w)) = this w \<and>
     this (snd (BundlerSetBundlingMode ctx mode w)) = this w"
    by (simp add: SendUserOperation_snd EstimateUserOperationGas_snd
          EstimateUserOperationGasWithOverrides_snd GetUserOperationReceipt_snd
          GetUserOperationByHash_snd SupportedEntryPoints_snd ChainId_snd BundlerClearState_snd
          BundlerDumpMempool_snd BundlerSendBundleNow_snd BundlerSetBundlingMode_snd
          CallContext_this)
  have independent:
    "fst (SendUserOperation ctx op entryPoint v) = fst (SendUserOperation ctx op entryPoint w) \<and>
      remote (snd (SendUserOperation ctx op entryPoint v)) =
        remote (snd (SendUserOperation ctx op entryPoint w)) \<and>
      fst (EstimateUserOperationGas G ctx op entryPoint v) =
        fst (EstimateUserOperationGas G ctx op entryPoint w) \<and>
      remote (snd (EstimateUserOperationGas G ctx op entryPoint v)) =
        remote (snd (EstimateUserOperationGas G ctx op entryPoint w)) \<and>
      fst (EstimateUserOperationGasWithOverrides G ctx op entryPoint stateOverrides v) =
        fst (EstimateUserOperationGasWithOverrides G ctx op entryPoint stateOverrides w) \<and>
      remote (snd (EstimateUserOperationGasWithOverrides G ctx op entryPoint stateOverrides v)) =
        remote (snd (EstimateUserOperationGasWithOverrides G ctx op entryPoint stateOverrides w)) \<and>
      fst (GetUserOperationReceipt R ctx userOpHash v) =
        fst (GetUserOperationReceipt R ctx userOpHash w) \<and>
      remote (snd (GetUserOperationReceipt R ctx userOpHash v)) =
        remote (snd (GetUserOperationReceipt R ctx userOpHash w)) \<and>
      fst (GetUserOperationByHash L ctx userOpHash v) =
        fst (GetUserOperationByHash L ctx userOpHash w) \<and>
      remote (snd (GetUserOperationByHash L ctx userOpHash v)) =
        remote (snd (GetUserOperationByHash L ctx userOpHash w)) \<and>
      fst (SupportedEntryPoints ctx v) = fst (SupportedEntryPoints ctx w) \<and>
      remote (snd (SupportedEntryPoints ctx v)) = remote (snd (SupportedEntryPoints ctx w)) \<and>
      fst (ChainId ctx v) = fst (ChainId ctx w) \<and>
      remote (snd (ChainId ctx v)) = remote (snd (ChainId ctx w)) \<and>
      fst (BundlerClearState ctx v) = fst (BundlerClearState ctx w) \<and>
      remote (snd (BundlerClearState ctx v)) = remote (snd (BundlerClearState ctx w)) \<and>
      map_option fst (BundlerDumpMempool ctx entryPoint v) =
        map_option fst (BundlerDumpMempool ctx entryPoint w) \<and>
      map_option remote (map_option snd (BundlerDumpMempool ctx entryPoint v)) =
        map_option remote (map_option snd (BundlerDumpMempool ctx entryPoint w)) \<and>
      fst (BundlerSendBundleNow HexToHash ctx v) = fst (BundlerSendBundleNow HexToHash ctx w) \<and>
      remote (snd (BundlerSendBundleNow HexToHash ctx v)) =
        remote (snd (BundlerSendBundleNow HexToHash ctx w)) \<and>
      fst (BundlerSetBundlingMode ctx mode v) = fst (BundlerSetBundlingMode ctx mode w) \<and>
      remote (snd (BundlerSetBundlingMode ctx mode v)) =
        remote (snd (BundlerSetBundlingMode ctx mode w))"
    if same: "this v = this w" "remote v = remote w"
    using SendUserOperation_independent [OF same, of ctx op entryPoint]
      EstimateUserOperationGas_independent [OF same, of G ctx op entryPoint]
      EstimateUserOperationGasWithOverrides_independent [OF same, of G ctx op entryPoint stateOverrides]
      GetUserOperationReceipt_independent [OF same, of R ctx userOpHash]
      GetUserOperationByHash_independent [OF same, of L ctx userOpHash]
      SupportedEntryPoints_independent [OF same, of ctx]
      ChainId_independent [OF same, of ctx]
      BundlerClearState_independent [OF same, of ctx]
      BundlerDumpMempool_independent [OF same, of ctx entryPoint]
      BundlerSendBundleNow_independent [OF same, of HexToHash ctx]
      BundlerSetBundlingMode_independent [OF same, of ctx mode]
    by blast
  from frame independent show ?thesis by blast
qed

text \<open>
  The statement at a server that answers every call alike, where an operation made after
  another returns what it returns when made first, in either order; and at a transport
  that fails its first call, where the second \<^verbatim>\<open>ChainId\<close> returns what a first call
  returns from the state the transport is then in.
\<close>

theorem client_state_unchanged_witness:
  "this (snd (ChainId Background (connected (answering (Inr (JString ''0x1''))) ()))) =
     this (connected (answering (Inr (JString ''0x1''))) ()) \<and>
   remote (snd (ChainId Background (connected (answering (Inr (JString ''0x1''))) ()))) =
     remote (connected (answering (Inr (JString ''0x1''))) ()) \<and>
   fst (SupportedEntryPoints Background
          (snd (ChainId Background (connected (answering (Inr (JString ''0x1''))) ())))) =
     fst (SupportedEntryPoints Background (connected (answering (Inr (JString ''0x1''))) ())) \<and>
   fst (BundlerSendBundleNow strict_hash Background
          (snd (ChainId Background (connected (answering (Inr (JString ''0x1''))) ())))) =
     fst (BundlerSendBundleNow strict_hash Background
            (connected (answering (Inr (JString ''0x1''))) ())) \<and>
   fst (ChainId Background
          (snd (SupportedEntryPoints Background
                  (connected (answering (Inr (JString ''0x1''))) ())))) =
     fst (ChainId Background (connected (answering (Inr (JString ''0x1''))) ())) \<and>
   fst (ChainId Background
          (snd (ChainId Background (connected (failing_once Cancelled (JString ''0x1'')) 0)))) =
     fst (ChainId Background
            \<lparr>this = NewClient (failing_once Cancelled (JString ''0x1'')), remote = 1,
             sent = []\<rparr>)"
proof -
  let ?W = "connected (answering (Inr (JString ''0x1''))) () :: unit world"
  let ?F = "connected (failing_once Cancelled (JString ''0x1'')) 0"
  note a = client_state_unchanged
    [where w = ?W and v = "snd (ChainId Background ?W)" and ctx = Background
       and HexToHash = strict_hash]
  note b = client_state_unchanged
    [where w = ?W and v = "snd (SupportedEntryPoints Background ?W)" and ctx = Background]
  note f = client_state_unchanged
    [where w = "\<lparr>this = NewClient (failing_once Cancelled (JString ''0x1'')), remote = 1,
                  sent = []\<rparr>"
       and v = "snd (ChainId Background ?F)" and ctx = Background]
  have r: "remote (snd (ChainId Background ?F)) = 1"
    by (simp add: ChainId_snd CallContext_eq failing_once_def)
  have t: "this (snd (ChainId Background ?F)) = NewClient (failing_once Cancelled (JString ''0x1''))"
    by (simp add: ChainId_snd CallContext_this)
  from a have 1: "this (snd (ChainId Background ?W)) = this ?W" by blast
  have 2: "remote (snd (ChainId Background ?W)) = remote ?W" by simp
  from b have 3: "this (snd (SupportedEntryPoints Background ?W)) = this ?W" by blast
  have 4: "remote (snd (SupportedEntryPoints Background ?W)) = remote ?W" by simp
  from a 1 2 have 5:
    "fst (SupportedEntryPoints Background (snd (ChainId Background ?W))) =
       fst (SupportedEntryPoints Background ?W)"
    "fst (BundlerSendBundleNow strict_hash Background (snd (ChainId Background ?W))) =
       fst (BundlerSendBundleNow strict_hash Background ?W)"
    by blast+
  from b 3 4 have 6:
    "fst (ChainId Background (snd (SupportedEntryPoints Background ?W))) =
       fst (ChainId Background ?W)"
    by blast
  let ?G = "\<lparr>this = NewClient (failing_once Cancelled (JString ''0x1'')), remote = 1,
              sent = []\<rparr> :: nat world"
  from t have t': "this (snd (ChainId Background ?F)) = this ?G" by simp
  from r have r': "remote (snd (ChainId Background ?F)) = remote ?G" by simp
  from f t' r' have 7:
    "fst (ChainId Background (snd (ChainId Background ?F))) =
       fst (ChainId Background
            \<lparr>this = NewClient (failing_once Cancelled (JString ''0x1'')), remote = 1,
             sent = []\<rparr>)"
    by blast
  from 1 2 5 6 7 show ?thesis by blast
qed

text \<open>
  C3. For every list of user operations that the call of \<^verbatim>\<open>BundlerDumpMempool\<close> yields in
  the wire shape, the result has one element per wire operation, and the element for a wire
  operation is the canonical operation built directly from the same integers, with the
  address and the byte strings unchanged. From the wire itself: when the server answers with
  a list of valid operations in the wire format, hex strings for the numerics, the result is
  the list of exactly those operations.
\<close>

theorem BundlerDumpMempool_converts_fields:
  "(CallContext (RpcClient.c (this w))
      (unmarshal_slice (unmarshal_ptr unmarshal_UserOperation zero_UserOperation) None)
      None ctx ''debug_bundler_dumpMempool'' [ArgAddress entryPoint] w = ((None, ops), w') \<and>
    i < length (elems ops) \<and>
    elems ops ! i =
           Some \<lparr>UserOperation.Sender = sender,
                 UserOperation.Nonce = map_option Big nonce,
                 UserOperation.InitCode = initCode,
                 UserOperation.CallData = callData,
                 UserOperation.CallGasLimit = map_option Big callGasLimit,
                 UserOperation.VerificationGasLimit = map_option Big verificationGasLimit,
                 UserOperation.PreVerificationGas = map_option Big preVerificationGas,
                 UserOperation.MaxFeePerGas = map_option Big maxFeePerGas,
                 UserOperation.MaxPriorityFeePerGas = map_option Big maxPriorityFeePerGas,
                 UserOperation.PaymasterAndData = paymasterAndData,
                 UserOperation.Signature = signature\<rparr>
    \<longrightarrow> (\<exists>uops. BundlerDumpMempool ctx entryPoint w = Some ((Some uops, None), w') \<and>
           length uops = length (elems ops) \<and>
           uops ! i =
             Some \<lparr>userop_UserOperation.Sender = sender,
                   userop_UserOperation.Nonce = nonce,
                   userop_UserOperation.InitCode = initCode,
                   userop_UserOperation.CallData = callData,
                   userop_UserOperation.CallGasLimit = callGasLimit,
                   userop_UserOperation.VerificationGasLimit = verificationGasLimit,
                   userop_UserOperation.PreVerificationGas = preVerificationGas,
                   userop_UserOperation.MaxFeePerGas = maxFeePerGas,
                   userop_UserOperation.MaxPriorityFeePerGas = maxPriorityFeePerGas,
                   userop_UserOperation.PaymasterAndData = paymasterAndData,
                   userop_UserOperation.Signature = signature\<rparr>)) \<and>
   (RpcClient.c (this w) (remote w) ctx ''debug_bundler_dumpMempool'' [ArgAddress entryPoint]
        = (Inr (JArray (map marshal_UserOperation sentOps)), r) \<and>
    list_all valid_UserOperation sentOps
    \<longrightarrow> map_option fst (BundlerDumpMempool ctx entryPoint w) =
          Some (Some (map Some sentOps), None))"
  using BundlerDumpMempool_element [of w ctx entryPoint ops w' i]
    BundlerDumpMempool_marshalled [of w ctx entryPoint sentOps r]
  by blast

text \<open>
  The statement at a server that answers with \<open>mempool_answer\<close>, and at one that answers
  with the example operation in the wire format.
\<close>

theorem BundlerDumpMempool_converts_fields_witness:
  "(\<exists>uops.
     BundlerDumpMempool Background 0 (connected (answering (Inr mempool_answer)) ()) =
       Some ((Some uops, None),
             \<lparr>this = NewClient (answering (Inr mempool_answer)), remote = (),
              sent = [(''debug_bundler_dumpMempool'', [ArgAddress 0])]\<rparr>) \<and>
     length uops = 2 \<and>
     uops ! 1 =
       Some \<lparr>userop_UserOperation.Sender = 0,
             userop_UserOperation.Nonce = Some 5,
             userop_UserOperation.InitCode = [],
             userop_UserOperation.CallData = [],
             userop_UserOperation.CallGasLimit = None,
             userop_UserOperation.VerificationGasLimit = None,
             userop_UserOperation.PreVerificationGas = None,
             userop_UserOperation.MaxFeePerGas = None,
             userop_UserOperation.MaxPriorityFeePerGas = None,
             userop_UserOperation.PaymasterAndData = [],
             userop_UserOperation.Signature = []\<rparr>) \<and>
   list_all valid_UserOperation [example_op] \<and>
   map_option fst
     (BundlerDumpMempool Background 0
        (connected (answering (Inr (JArray (map marshal_UserOperation [example_op])))) ()))
     = Some (Some [Some example_op], None)"
proof -
  have h3: "elems (Some [None, Some (zero_UserOperation\<lparr>UserOperation.Nonce := Some (Big 5)\<rparr>)]) ! 1 =
      Some \<lparr>UserOperation.Sender = 0,
            UserOperation.Nonce = map_option Big (Some 5),
            UserOperation.InitCode = [],
            UserOperation.CallData = [],
            UserOperation.CallGasLimit = map_option Big None,
            UserOperation.VerificationGasLimit = map_option Big None,
            UserOperation.PreVerificationGas = map_option Big None,
            UserOperation.MaxFeePerGas = map_option Big None,
            UserOperation.MaxPriorityFeePerGas = map_option Big None,
            UserOperation.PaymasterAndData = [],
            UserOperation.Signature = []\<rparr>"
    by (simp add: elems_def zero_UserOperation_def)
  have h2: "1 < length (elems (Some [None, Some (zero_UserOperation\<lparr>UserOperation.Nonce := Some (Big 5)\<rparr>)]))"
    by (simp add: elems_def)
  note typed = BundlerDumpMempool_converts_fields
    [where w = "connected (answering (Inr mempool_answer)) ()" and ctx = Background
       and entryPoint = 0
       and ops = "Some [None, Some (zero_UserOperation\<lparr>UserOperation.Nonce := Some (Big 5)\<rparr>)]"
       and w' = "\<lparr>this = NewClient (answering (Inr mempool_answer)), remote = (),
                  sent = [(''debug_bundler_dumpMempool'', [ArgAddress 0])]\<rparr>"
       and i = 1 and sender = 0 and nonce = "Some 5" and initCode = "[]" and callData = "[]"
       and callGasLimit = None and verificationGasLimit = None and preVerificationGas = None
       and maxFeePerGas = None and maxPriorityFeePerGas = None and paymasterAndData = "[]"
       and signature = "[]", THEN conjunct1]
  note wire = BundlerDumpMempool_converts_fields
    [where w = "connected (answering (Inr (JArray (map marshal_UserOperation [example_op])))) ()"
       and ctx = Background and entryPoint = 0 and sentOps = "[example_op]" and r = "()",
     THEN conjunct2]
  have v: "list_all valid_UserOperation [example_op]"
    by (simp add: valid_example_op)
  have a: "RpcClient.c (this (connected (answering (Inr (JArray (map marshal_UserOperation [example_op])))) ()))
        (remote (connected (answering (Inr (JArray (map marshal_UserOperation [example_op])))) ()))
        Background ''debug_bundler_dumpMempool'' [ArgAddress 0]
      = (Inr (JArray (map marshal_UserOperation [example_op])), ())"
    by (simp add: answering_def)
  from typed mempool_answer_call h2 h3 have
    "\<exists>uops.
     BundlerDumpMempool Background 0 (connected (answering (Inr mempool_answer)) ()) =
       Some ((Some uops, None),
             \<lparr>this = NewClient (answering (Inr mempool_answer)), remote = (),
              sent = [(''debug_bundler_dumpMempool'', [ArgAddress 0])]\<rparr>) \<and>
     length uops = 2 \<and>
     uops ! 1 =
       Some \<lparr>userop_UserOperation.Sender = 0,
             userop_UserOperation.Nonce = Some 5,
             userop_UserOperation.InitCode = [],
             userop_UserOperation.CallData = [],
             userop_UserOperation.CallGasLimit = None,
             userop_UserOperation.VerificationGasLimit = None,
             userop_UserOperation.PreVerificationGas = None,
             userop_UserOperation.MaxFeePerGas = None,
             userop_UserOperation.MaxPriorityFeePerGas = None,
             userop_UserOperation.PaymasterAndData = [],
             userop_UserOperation.Signature = []\<rparr>"
    by (simp add: elems_def numeral_2_eq_2)
  moreover from wire a v have
    "map_option fst
       (BundlerDumpMempool Background 0
          (connected (answering (Inr (JArray (map marshal_UserOperation [example_op])))) ()))
       = Some (Some [Some example_op], None)"
    by simp
  ultimately show ?thesis using v by blast
qed

text \<open>
  C5. For every valid user operation, writing it in the wire format (address and byte strings
  as \<^verbatim>\<open>0x\<close>-prefixed hex, big integers as \<^verbatim>\<open>0x\<close>-prefixed minimal hex) and reading it
  back gives a wire operation whose conversion is the original, field for field. In
  particular a big integer, an address and a byte string each come back from their hex
  form as they went in: no big integer loses precision.
\<close>

theorem wire_round_trip:
  "(valid_UserOperation op \<longrightarrow>
      (\<exists>uo. unmarshal_UserOperation (marshal_UserOperation op) zero_UserOperation = (None, uo) \<and>
            ToUserOperation (Some uo) = Some op)) \<and>
   (0 \<le> n \<longrightarrow> DecodeBig (EncodeBig n) = Inr n) \<and>
   decode_word (encode_word (a :: Address)) = Inr a \<and>
   decode_Bytes (encode_Bytes bs) = Inr bs"
  by (simp add: unmarshal_marshal_UserOperation ToUserOperation_Big DecodeBig_EncodeBig
        decode_encode_Address decode_encode_Bytes)

text \<open>The statement at the example operation and at the integer 137.\<close>

theorem wire_round_trip_witness:
  "valid_UserOperation example_op \<and>
   (\<exists>uo. unmarshal_UserOperation (marshal_UserOperation example_op) zero_UserOperation
            = (None, uo) \<and>
         ToUserOperation (Some uo) = Some example_op) \<and>
   (0::int) \<le> 137 \<and> DecodeBig (EncodeBig 137) = Inr 137"
  using wire_round_trip [of example_op 137] valid_example_op by simp

text \<open>
  C7. \<^verbatim>\<open>ChainId\<close> returns the integer that the server's hex string denotes, as it is: 1
  for \<^verbatim>\<open>"0x1"\<close>, 137 for \<^verbatim>\<open>"0x89"\<close>, and in general the integer that the string decodes
  to, so that a natural number sent in its minimal hex form comes back as that number.
\<close>

theorem ChainId_decodes_hex:
  "(RpcClient.c (this w) (remote w) ctx ''eth_chainId'' [] = (Inr (JString ''0x1''), r)
      \<longrightarrow> fst (ChainId ctx w) = (Some 1, None)) \<and>
   (RpcClient.c (this w) (remote w) ctx ''eth_chainId'' [] = (Inr (JString ''0x89''), r)
      \<longrightarrow> fst (ChainId ctx w) = (Some 137, None)) \<and>
   (RpcClient.c (this w) (remote w) ctx ''eth_chainId'' [] = (Inr (JString s), r) \<and>
    DecodeBig s = Inr n
      \<longrightarrow> fst (ChainId ctx w) = (Some n, None)) \<and>
   (RpcClient.c (this w) (remote w) ctx ''eth_chainId'' [] = (Inr (JString (EncodeBig n)), r) \<and>
    0 \<le> n
      \<longrightarrow> fst (ChainId ctx w) = (Some n, None))"
proof -
  have 1: "DecodeBig ''0x1'' = Inr 1"
    by (simp add: DecodeBig_def strip_0x_def hex_val_def)
  have 2: "DecodeBig ''0x89'' = Inr 137"
    by (simp add: DecodeBig_def strip_0x_def hex_val_def)
  have 3: "fst (ChainId ctx w) = (Some k, None)"
    if "RpcClient.c (this w) (remote w) ctx ''eth_chainId'' [] = (Inr (JString t), r)"
      and "DecodeBig t = Inr k" for t k
    using that by (simp add: ChainId_eq CallContext_eq unmarshal_Big_def big_Int_def)
  show ?thesis
    using 3 [OF _ 1] 3 [OF _ 2] 3 [of s n] 3 [of "EncodeBig n" n]
    by (simp add: DecodeBig_EncodeBig)
qed

text \<open>The statement at servers that answer \<^verbatim>\<open>"0x1"\<close> and \<^verbatim>\<open>"0x89"\<close>.\<close>

theorem ChainId_decodes_hex_witness:
  "fst (ChainId Background (connected (answering (Inr (JString ''0x1''))) ())) = (Some 1, None) \<and>
   fst (ChainId Background (connected (answering (Inr (JString ''0x89''))) ())) = (Some 137, None)"
  using ChainId_decodes_hex
      [of "connected (answering (Inr (JString ''0x1''))) ()" Background "()"]
    ChainId_decodes_hex
      [of "connected (answering (Inr (JString ''0x89''))) ()" Background "()"]
  by (simp add: answering_def)

text \<open>
  C10. \<^verbatim>\<open>ToUserOperation\<close> is total: on \<^verbatim>\<open>nil\<close> it returns \<^verbatim>\<open>nil\<close>, and on a wire
  operation it returns an operation in which every big-number field that is \<^verbatim>\<open>nil\<close> on
  the wire is a \<^verbatim>\<open>nil\<close> integer. Consequently \<^verbatim>\<open>BundlerDumpMempool\<close> never panics in its
  loop, and after a successful call returns a slice of exactly the length of the server's
  list whose element \<open>i\<close> is the conversion of the server's element \<open>i\<close>.
\<close>

theorem ToUserOperation_total:
  "ToUserOperation None = None \<and>
   (\<exists>op. ToUserOperation (Some uo) = Some op \<and>
      (UserOperation.Nonce uo = None \<longrightarrow> userop_UserOperation.Nonce op = None) \<and>
      (UserOperation.CallGasLimit uo = None \<longrightarrow> userop_UserOperation.CallGasLimit op = None) \<and>
      (UserOperation.VerificationGasLimit uo = None
         \<longrightarrow> userop_UserOperation.VerificationGasLimit op = None) \<and>
      (UserOperation.PreVerificationGas uo = None
         \<longrightarrow> userop_UserOperation.PreVerificationGas op = None) \<and>
      (UserOperation.MaxFeePerGas uo = None \<longrightarrow> userop_UserOperation.MaxFeePerGas op = None) \<and>
      (UserOperation.MaxPriorityFeePerGas uo = None
         \<longrightarrow> userop_UserOperation.MaxPriorityFeePerGas op = None)) \<and>
   (CallContext (RpcClient.c (this w))
      (unmarshal_slice (unmarshal_ptr unmarshal_UserOperation zero_UserOperation) None)
      None ctx ''debug_bundler_dumpMempool'' [ArgAddress entryPoint] w = ((None, ops), w')
    \<longrightarrow> (\<exists>uops. BundlerDumpMempool ctx entryPoint w = Some ((Some uops, None), w') \<and>
           length uops = length (elems ops) \<and>
           (\<forall>i < length (elems ops). uops ! i = ToUserOperation (elems ops ! i)))) \<and>
   BundlerDumpMempool ctx entryPoint w \<noteq> None"
proof (intro conjI)
  show "ToUserOperation None = None"
    by (simp add: ToUserOperation_def)
  show "\<exists>op. ToUserOperation (Some uo) = Some op \<and>
      (UserOperation.Nonce uo = None \<longrightarrow> userop_UserOperation.Nonce op = None) \<and>
      (UserOperation.CallGasLimit uo = None \<longrightarrow> userop_UserOperation.CallGasLimit op = None) \<and>
      (UserOperation.VerificationGasLimit uo = None
         \<longrightarrow> userop_UserOperation.VerificationGasLimit op = None) \<and>
      (UserOperation.PreVerificationGas uo = None
         \<longrightarrow> userop_UserOperation.PreVerificationGas op = None) \<and>
      (UserOperation.MaxFeePerGas uo = None \<longrightarrow> userop_UserOperation.MaxFeePerGas op = None) \<and>
      (UserOperation.MaxPriorityFeePerGas uo = None
         \<longrightarrow> userop_UserOperation.MaxPriorityFeePerGas op = None)"
    by (simp add: ToUserOperation_Some ToInt_def)
  show "CallContext (RpcClient.c (this w))
      (unmarshal_slice (unmarshal_ptr unmarshal_UserOperation zero_UserOperation) None)
      None ctx ''debug_bundler_dumpMempool'' [ArgAddress entryPoint] w = ((None, ops), w')
    \<longrightarrow> (\<exists>uops. BundlerDumpMempool ctx entryPoint w = Some ((Some uops, None), w') \<and>
           length uops = length (elems ops) \<and>
           (\<forall>i < length (elems ops). uops ! i = ToUserOperation (elems ops ! i)))"
    by (simp add: BundlerDumpMempool_success)
  show "BundlerDumpMempool ctx entryPoint w \<noteq> None"
    by (simp add: BundlerDumpMempool_eq split: prod.splits option.splits)
qed

text \<open>
  The statement at the zero-valued wire operation, whose numerics are all \<^verbatim>\<open>nil\<close>, and at
  a server that answers with \<open>mempool_answer\<close>.
\<close>

theorem ToUserOperation_total_witness:
  "(\<exists>op. ToUserOperation (Some zero_UserOperation) = Some op \<and>
      userop_UserOperation.Nonce op = None \<and>
      userop_UserOperation.CallGasLimit op = None \<and>
      userop_UserOperation.VerificationGasLimit op = None \<and>
      userop_UserOperation.PreVerificationGas op = None \<and>
      userop_UserOperation.MaxFeePerGas op = None \<and>
      userop_UserOperation.MaxPriorityFeePerGas op = None) \<and>
   (\<exists>uops.
      BundlerDumpMempool Background 0 (connected (answering (Inr mempool_answer)) ()) =
        Some ((Some uops, None),
              \<lparr>this = NewClient (answering (Inr mempool_answer)), remote = (),
               sent = [(''debug_bundler_dumpMempool'', [ArgAddress 0])]\<rparr>) \<and>
      length uops = 2 \<and>
      uops ! 0 = None \<and>
      uops ! 1 =
        ToUserOperation (Some (zero_UserOperation\<lparr>UserOperation.Nonce := Some (Big 5)\<rparr>)))"
proof -
  note t = ToUserOperation_total
    [of zero_UserOperation "connected (answering (Inr mempool_answer)) ()" Background 0
      "Some [None, Some (zero_UserOperation\<lparr>UserOperation.Nonce := Some (Big 5)\<rparr>)]"
      "\<lparr>this = NewClient (answering (Inr mempool_answer)), remote = (),
        sent = [(''debug_bundler_dumpMempool'', [ArgAddress 0])]\<rparr>"]
  from t have a: "\<exists>op. ToUserOperation (Some zero_UserOperation) = Some op \<and>
      userop_UserOperation.Nonce op = None \<and>
      userop_UserOperation.CallGasLimit op = None \<and>
      userop_UserOperation.VerificationGasLimit op = None \<and>
      userop_UserOperation.PreVerificationGas op = None \<and>
      userop_UserOperation.MaxFeePerGas op = None \<and>
      userop_UserOperation.MaxPriorityFeePerGas op = None"
    by (simp add: zero_UserOperation_def)
  from t mempool_answer_call obtain uops where
    u: "BundlerDumpMempool Background 0 (connected (answering (Inr mempool_answer)) ()) =
        Some ((Some uops, None),
              \<lparr>this = NewClient (answering (Inr mempool_answer)), remote = (),
               sent = [(''debug_bundler_dumpMempool'', [ArgAddress 0])]\<rparr>)"
    and l: "length uops = 2"
    and e: "\<forall>i<2. uops ! i =
        ToUserOperation ([None, Some (zero_UserOperation\<lparr>UserOperation.Nonce := Some (Big 5)\<rparr>)] ! i)"
    by (auto simp add: elems_def)
  from e have "uops ! 0 = None"
    and "uops ! 1 = ToUserOperation (Some (zero_UserOperation\<lparr>UserOperation.Nonce := Some (Big 5)\<rparr>))"
    by (simp_all add: ToUserOperation_def)
  with a u l show ?thesis by simp
qed

end
